theory Spec2Isabelle
  imports Complex_Main "HOL-Library.Char_ord" "HOL-Library.List_Lexorder" "HOL-Library.Word"
begin

section \<open>Python text\<close>

text \<open>
  A Python \<open>str\<close> is a sequence of code points. The embedding carries text as
  \<^typ>\<open>string\<close>: a list of 8-bit characters, each read as the code point of the same
  number (U+0000 to U+00FF). The case mappings and character classes below are those of
  the Unicode database on that range. Uppercasing leaves the range at three characters
  (U+00B5, U+00DF, U+00FF), so \<open>str.upper\<close> returns code points.
\<close>

type_synonym codepoint = nat

definition upper_letters :: string where
  "upper_letters = ''ABCDEFGHIJKLMNOPQRSTUVWXYZ'' @
     [CHR 0xC0, CHR 0xC1, CHR 0xC2, CHR 0xC3, CHR 0xC4, CHR 0xC5, CHR 0xC6, CHR 0xC7,
      CHR 0xC8, CHR 0xC9, CHR 0xCA, CHR 0xCB, CHR 0xCC, CHR 0xCD, CHR 0xCE, CHR 0xCF,
      CHR 0xD0, CHR 0xD1, CHR 0xD2, CHR 0xD3, CHR 0xD4, CHR 0xD5, CHR 0xD6,
      CHR 0xD8, CHR 0xD9, CHR 0xDA, CHR 0xDB, CHR 0xDC, CHR 0xDD, CHR 0xDE]"

definition lower_letters :: string where
  "lower_letters = ''abcdefghijklmnopqrstuvwxyz'' @
     [CHR 0xE0, CHR 0xE1, CHR 0xE2, CHR 0xE3, CHR 0xE4, CHR 0xE5, CHR 0xE6, CHR 0xE7,
      CHR 0xE8, CHR 0xE9, CHR 0xEA, CHR 0xEB, CHR 0xEC, CHR 0xED, CHR 0xEE, CHR 0xEF,
      CHR 0xF0, CHR 0xF1, CHR 0xF2, CHR 0xF3, CHR 0xF4, CHR 0xF5, CHR 0xF6,
      CHR 0xF8, CHR 0xF9, CHR 0xFA, CHR 0xFB, CHR 0xFC, CHR 0xFD, CHR 0xFE]"

text \<open>\<open>str.lower\<close>: every cased character of the range has its lowercase form in the range.\<close>

definition lower_char :: "char \<Rightarrow> char" where
  "lower_char c = (case map_of (zip upper_letters lower_letters) c of Some d \<Rightarrow> d | None \<Rightarrow> c)"

definition py_lower :: "string \<Rightarrow> string" where
  "py_lower s = map lower_char s"

text \<open>
  \<open>str.upper\<close>: U+00DF becomes the two letters SS, U+00FF becomes U+0178 and U+00B5
  becomes U+039C; U+00F7 (the division sign) is not a letter.
\<close>

definition upper_char :: "char \<Rightarrow> codepoint list" where
  "upper_char c = (let n = (of_char c :: nat) in
     if 97 \<le> n \<and> n \<le> 122 then [n - 32]
     else if n = 181 then [924]
     else if n = 223 then [83, 83]
     else if n = 255 then [376]
     else if 224 \<le> n \<and> n \<le> 254 \<and> n \<noteq> 247 then [n - 32]
     else [n])"

definition py_upper :: "string \<Rightarrow> codepoint list" where
  "py_upper s = concat (map upper_char s)"

definition codepoints :: "string \<Rightarrow> codepoint list" where
  "codepoints s = map of_char s"

text \<open>\<open>str.isalnum\<close> on one character: letters, decimal digits, and the other numeric characters.\<close>

definition isalnum_char :: "char \<Rightarrow> bool" where
  "isalnum_char c = (let n = (of_char c :: nat) in
     (48 \<le> n \<and> n \<le> 57) \<or> (65 \<le> n \<and> n \<le> 90) \<or> (97 \<le> n \<and> n \<le> 122) \<or>
     n = 170 \<or> n = 178 \<or> n = 179 \<or> n = 181 \<or> n = 185 \<or> n = 186 \<or>
     (188 \<le> n \<and> n \<le> 190) \<or> (192 \<le> n \<and> n \<le> 214) \<or> (216 \<le> n \<and> n \<le> 246) \<or>
     (248 \<le> n \<and> n \<le> 255))"

text \<open>\<open>s.isalnum()\<close> is false on the empty text.\<close>

definition py_isalnum :: "string \<Rightarrow> bool" where
  "py_isalnum s = (s \<noteq> [] \<and> list_all isalnum_char s)"

text \<open>\<open>str.isspace\<close> on one character, the class \<open>str.strip()\<close> removes at both ends.\<close>

definition isspace_char :: "char \<Rightarrow> bool" where
  "isspace_char c = (let n = (of_char c :: nat) in
     (9 \<le> n \<and> n \<le> 13) \<or> (28 \<le> n \<and> n \<le> 32) \<or> n = 133 \<or> n = 160)"

definition py_strip :: "string \<Rightarrow> string" where
  "py_strip s = rev (dropWhile isspace_char (rev (dropWhile isspace_char s)))"

text \<open>\<open>s.replace(c, "")\<close> for a one-character pattern.\<close>

definition py_remove :: "char \<Rightarrow> string \<Rightarrow> string" where
  "py_remove c s = filter (\<lambda>d. d \<noteq> c) s"

text \<open>\<open>needle in hay\<close>: the needle occurs as a contiguous run.\<close>

fun is_prefix :: "'a list \<Rightarrow> 'a list \<Rightarrow> bool" where
  "is_prefix [] ys = True"
| "is_prefix (x # xs) [] = False"
| "is_prefix (x # xs) (y # ys) = (x = y \<and> is_prefix xs ys)"

fun py_in :: "'a list \<Rightarrow> 'a list \<Rightarrow> bool" where
  "py_in needle [] = (needle = [])"
| "py_in needle (h # t) = (is_prefix needle (h # t) \<or> py_in needle t)"

text \<open>\<open>sep.join(parts)\<close>.\<close>

fun py_join :: "string \<Rightarrow> string list \<Rightarrow> string" where
  "py_join sep [] = []"
| "py_join sep [p] = p"
| "py_join sep (p # q # ps) = p @ sep @ py_join sep (q # ps)"

text \<open>\<open>str(n)\<close> for an integer: decimal digits, with a minus sign below zero.\<close>

fun show_nat :: "nat \<Rightarrow> string" where
  "show_nat n = (if n < 10 then [''0123456789'' ! n]
                 else show_nat (n div 10) @ [''0123456789'' ! (n mod 10)])"

declare show_nat.simps [simp del]

definition show_int :: "int \<Rightarrow> string" where
  "show_int i = (if i < 0 then ''-'' @ show_nat (nat (- i)) else show_nat (nat i))"

section \<open>Errors and filter values\<close>

text \<open>Each exception class the modules raise, with its message (\<open>str(e)\<close>).\<close>

datatype error =
    ValueError string
  | RuntimeError string
  | TypeError string
  | FileEncodingError string

fun str_error :: "error \<Rightarrow> string" where
  "str_error (ValueError m) = m"
| "str_error (RuntimeError m) = m"
| "str_error (TypeError m) = m"
| "str_error (FileEncodingError m) = m"

text \<open>
  A float is carried as its value together with the text \<open>str()\<close> prints for it (the
  shortest-repr algorithm of the runtime is not part of this repository).
\<close>

datatype pyfloat = Finite rat | NaN | PosInf | NegInf

text \<open>
  The values a filter dictionary holds: \<open>None\<close>, a scalar, a list or a tuple of scalars.
  \<open>bool\<close> is a subclass of \<open>int\<close> in Python, which \<open>isinstance_int_float\<close> records.
\<close>

datatype scalar = SStr string | SInt int | SBool bool | SFloat pyfloat string

datatype pyval =
    PNone
  | PScalar (scalar: scalar)
  | PList (items: "scalar list")
  | PTuple (items: "scalar list")

type_synonym filters = "(string \<times> pyval) list"

fun isinstance_list :: "pyval \<Rightarrow> bool" where
  "isinstance_list (PList xs) = True"
| "isinstance_list v = False"

fun isinstance_tuple :: "pyval \<Rightarrow> bool" where
  "isinstance_tuple (PTuple xs) = True"
| "isinstance_tuple v = False"

fun isinstance_str :: "pyval \<Rightarrow> bool" where
  "isinstance_str (PScalar (SStr s)) = True"
| "isinstance_str v = False"

fun isinstance_int_float :: "pyval \<Rightarrow> bool" where
  "isinstance_int_float (PScalar (SInt i)) = True"
| "isinstance_int_float (PScalar (SBool b)) = True"
| "isinstance_int_float (PScalar (SFloat f t)) = True"
| "isinstance_int_float v = False"

fun isinstance_bool :: "pyval \<Rightarrow> bool" where
  "isinstance_bool (PScalar (SBool b)) = True"
| "isinstance_bool v = False"

text \<open>\<open>len(value)\<close> of a list or tuple.\<close>

fun py_len :: "pyval \<Rightarrow> nat" where
  "py_len (PList xs) = length xs"
| "py_len (PTuple xs) = length xs"
| "py_len v = 0"

text \<open>The text an f-string puts for \<open>{v}\<close>.\<close>

fun format_scalar :: "scalar \<Rightarrow> string" where
  "format_scalar (SStr s) = s"
| "format_scalar (SInt i) = show_int i"
| "format_scalar (SBool b) = (if b then ''True'' else ''False'')"
| "format_scalar (SFloat f t) = t"

text \<open>
  \<open>a > b\<close> on scalars: numbers compare by value (\<open>True\<close> is 1, \<open>False\<close> is 0, any
  comparison with NaN is false), texts compare by code points, and a text against a
  number raises \<open>TypeError\<close>.
\<close>

fun numeric_value :: "scalar \<Rightarrow> pyfloat option" where
  "numeric_value (SStr s) = None"
| "numeric_value (SInt i) = Some (Finite (of_int i))"
| "numeric_value (SBool b) = Some (Finite (if b then 1 else 0))"
| "numeric_value (SFloat f t) = Some f"

fun float_gt :: "pyfloat \<Rightarrow> pyfloat \<Rightarrow> bool" where
  "float_gt NaN y = False"
| "float_gt x NaN = False"
| "float_gt (Finite a) (Finite b) = (a > b)"
| "float_gt (Finite a) PosInf = False"
| "float_gt (Finite a) NegInf = True"
| "float_gt PosInf PosInf = False"
| "float_gt PosInf y = True"
| "float_gt NegInf y = False"

fun type_name :: "scalar \<Rightarrow> string" where
  "type_name (SStr s) = ''str''"
| "type_name (SInt i) = ''int''"
| "type_name (SBool b) = ''bool''"
| "type_name (SFloat f t) = ''float''"

fun py_gt :: "scalar \<Rightarrow> scalar \<Rightarrow> error + bool" where
  "py_gt (SStr a) (SStr b) = Inr (a > b)"
| "py_gt a b = (case (numeric_value a, numeric_value b) of
                  (Some x, Some y) \<Rightarrow> Inr (float_gt x y)
                | _ \<Rightarrow> Inl (TypeError ([CHR 0x27] @ ''>'' @ [CHR 0x27]
                           @ '' not supported between instances of '' @ [CHR 0x27]
                           @ type_name a @ [CHR 0x27] @ '' and '' @ [CHR 0x27]
                           @ type_name b @ [CHR 0x27])))"

section \<open>The KPI filter injector (kpi\_calculator.py)\<close>

text \<open>
  Lines 43 to 54 of \<open>_apply_filters_to_query\<close>: the column a filter key stands for.
  \<open>if available_columns:\<close> is false for \<open>None\<close> and for the empty list, and the key is
  then used as it is; otherwise the first column equal to the key under \<open>lower()\<close> is
  taken, and \<open>None\<close> here is the \<open>continue\<close> of a key that no column matches.
\<close>

definition resolve_column :: "string list option \<Rightarrow> string \<Rightarrow> string option" where
  "resolve_column available_columns key =
     (case available_columns of
        None \<Rightarrow> Some key
      | Some cols \<Rightarrow>
          if cols = [] then Some key
          else find (\<lambda>col. py_lower col = py_lower key) cols)"

text \<open>Lines 56 to 64: the condition appended for one filter, if any.\<close>

definition kpi_condition :: "string \<Rightarrow> string \<Rightarrow> pyval \<Rightarrow> string option" where
  \<open>kpi_condition actual_key key value =
     (if key = ''age'' \<and> isinstance_tuple value \<and> py_len value = 2 then
        Some (''"'' @ actual_key @ ''" BETWEEN '' @ format_scalar (items value ! 0)
              @ '' AND '' @ format_scalar (items value ! 1))
      else if isinstance_str value then
        Some (''"'' @ actual_key @ ''" = '' @ [CHR 0x27] @ format_scalar (scalar value) @ [CHR 0x27])
      else if isinstance_int_float value then
        Some (''"'' @ actual_key @ ''" = '' @ format_scalar (scalar value))
      else None)\<close>

text \<open>The body of the loop over \<open>self.filters.items()\<close>.\<close>

definition kpi_filter_entry :: "string list option \<Rightarrow> string \<times> pyval \<Rightarrow> string option" where
  "kpi_filter_entry available_columns entry =
     (let key = fst entry; value = snd entry in
      if value = PNone then None
      else case resolve_column available_columns key of
             None \<Rightarrow> None
           | Some actual_key \<Rightarrow> kpi_condition actual_key key value)"

definition has_where :: "string \<Rightarrow> bool" where
  "has_where base_query = py_in (codepoints ''WHERE'') (py_upper base_query)"

text \<open>
  \<open>KPICalculator._apply_filters_to_query\<close>, with \<open>self.filters\<close> as the first argument
  (a dictionary in insertion order).
\<close>

definition apply_filters_to_query :: "filters \<Rightarrow> string \<Rightarrow> string list option \<Rightarrow> string" where
  "apply_filters_to_query filters base_query available_columns =
     (if filters = [] then base_query
      else
        let conditions = List.map_filter (kpi_filter_entry available_columns) filters in
        if conditions = [] then base_query
        else
          let where_clause = py_join '' AND '' conditions in
          if has_where base_query then base_query @ '' AND '' @ where_clause
          else base_query @ '' WHERE '' @ where_clause)"

section \<open>The general predicate builder (filter\_engine.py)\<close>

text \<open>
  The \<open>if\<close>/\<open>elif\<close> chain of \<open>build_filter_query\<close> (lines 45 to 67), as the branch it
  selects for a value. The tests are in the order of the source.
\<close>

datatype branch =
    Skipped | InClause | BetweenClause | StrEquals | NumEquals | BoolEquals | NoClause

definition build_branch :: "pyval \<Rightarrow> branch" where
  "build_branch value =
     (if value = PNone then Skipped
      else if isinstance_list value \<and> py_len value > 0 then InClause
      else if isinstance_tuple value \<and> py_len value = 2 then BetweenClause
      else if isinstance_str value then StrEquals
      else if isinstance_int_float value then NumEquals
      else if isinstance_bool value then BoolEquals
      else NoClause)"

text \<open>An element of an \<open>IN\<close> list: quoted when it is a text, \<open>str(v)\<close> otherwise.\<close>

fun in_item :: "scalar \<Rightarrow> string" where
  "in_item (SStr s) = [CHR 0x27] @ s @ [CHR 0x27]"
| "in_item v = format_scalar v"

text \<open>What each branch appends to \<open>conditions\<close>.\<close>

definition build_condition :: "string \<times> pyval \<Rightarrow> string option" where
  "build_condition entry =
     (let key = fst entry; value = snd entry in
      case build_branch value of
        Skipped \<Rightarrow> None
      | InClause \<Rightarrow> Some (key @ '' IN ('' @ py_join '', '' (map in_item (items value)) @ '')'')
      | BetweenClause \<Rightarrow>
          Some (key @ '' BETWEEN '' @ format_scalar (items value ! 0)
                @ '' AND '' @ format_scalar (items value ! 1))
      | StrEquals \<Rightarrow> Some (key @ '' = '' @ [CHR 0x27] @ format_scalar (scalar value) @ [CHR 0x27])
      | NumEquals \<Rightarrow> Some (key @ '' = '' @ format_scalar (scalar value))
      | BoolEquals \<Rightarrow> Some (key @ '' = '' @ format_scalar (scalar value))
      | NoClause \<Rightarrow> None)"

definition build_filter_query :: "filters \<Rightarrow> string" where
  "build_filter_query filters =
     (if filters = [] then []
      else
        let conditions = List.map_filter build_condition filters in
        if conditions \<noteq> [] then py_join '' AND '' conditions else [])"

definition apply_filters :: "string \<Rightarrow> filters \<Rightarrow> string" where
  "apply_filters base_query filters =
     (let where_clause = build_filter_query filters in
      if where_clause = [] then base_query
      else if has_where base_query then base_query @ '' AND '' @ where_clause
      else base_query @ '' WHERE '' @ where_clause)"

text \<open>
  \<open>validate_filters\<close>: the messages one entry adds to \<open>errors\<close>. The comparison of a
  range's ends can raise, which ends the whole call.
\<close>

definition validate_entry :: "string \<times> pyval \<Rightarrow> error + string list" where
  "validate_entry entry =
     (let key = fst entry; value = snd entry in
      if value = PNone then Inr []
      else if isinstance_list value then
        (if py_len value = 0
         then Inr [''Filter '' @ [CHR 0x27] @ key @ [CHR 0x27] @ '' has empty list'']
         else Inr [])
      else if isinstance_tuple value then
        (if py_len value \<noteq> 2
         then Inr [''Filter '' @ [CHR 0x27] @ key @ [CHR 0x27]
                   @ '' range must have exactly 2 values'']
         else case py_gt (items value ! 0) (items value ! 1) of
                Inl e \<Rightarrow> Inl e
              | Inr gt \<Rightarrow>
                  if gt then Inr [''Filter '' @ [CHR 0x27] @ key @ [CHR 0x27]
                                  @ '' range start is greater than end'']
                  else Inr [])
      else Inr [])"

fun validate_loop :: "filters \<Rightarrow> string list \<Rightarrow> error + string list" where
  "validate_loop [] errors = Inr errors"
| "validate_loop (entry # rest) errors =
     (case validate_entry entry of
        Inl e \<Rightarrow> Inl e
      | Inr new \<Rightarrow> validate_loop rest (errors @ new))"

definition validate_filters :: "filters \<Rightarrow> error + (bool \<times> string list)" where
  "validate_filters filters =
     (case validate_loop filters [] of
        Inl e \<Rightarrow> Inl e
      | Inr errors \<Rightarrow> Inr (length errors = 0, errors))"

section \<open>The tabular store (database\_manager.py)\<close>

text \<open>
  A \<open>DataFrame\<close> is its column labels and its rows; \<open>df.empty\<close> holds when either axis
  has length zero.
\<close>

record 'cell dataframe =
  columns :: "string list"
  rows :: "'cell list list"

definition df_empty :: "'cell dataframe \<Rightarrow> bool" where
  "df_empty df = (columns df = [] \<or> rows df = [])"

text \<open>
  The DuckDB connection is the library's, not this repository's: its three operations used
  by \<open>import_data\<close> are parameters, each giving the next state of the store or the
  text of the exception it raises.
\<close>

record ('db, 'cell) duckdb =
  execute :: "'db \<Rightarrow> string \<Rightarrow> string + 'db"
  register :: "'db \<Rightarrow> string \<Rightarrow> 'cell dataframe \<Rightarrow> string + 'db"
  unregister :: "'db \<Rightarrow> string \<Rightarrow> string + 'db"

definition and_then :: "'e + 'a \<Rightarrow> ('a \<Rightarrow> 'e + 'b) \<Rightarrow> 'e + 'b" where
  "and_then r f = (case r of Inl e \<Rightarrow> Inl e | Inr x \<Rightarrow> f x)"

text \<open>The \<open>try\<close> block of \<open>import_data\<close> (lines 61 to 66).\<close>

definition import_statements ::
  "('db, 'cell) duckdb \<Rightarrow> 'db \<Rightarrow> 'cell dataframe \<Rightarrow> string \<Rightarrow> string \<Rightarrow> string + 'db" where
  "import_statements conn db df table_name if_exists =
     and_then (if if_exists = ''replace''
               then execute conn db (''DROP TABLE IF EXISTS '' @ table_name)
               else Inr db)
       (\<lambda>db1. and_then (register conn db1 table_name df)
         (\<lambda>db2. and_then (execute conn db2 (''CREATE TABLE '' @ table_name
                                              @ '' AS SELECT * FROM '' @ table_name))
           (\<lambda>db3. unregister conn db3 table_name)))"

definition import_data ::
  "('db, 'cell) duckdb \<Rightarrow> 'db \<Rightarrow> 'cell dataframe \<Rightarrow> string \<Rightarrow> string \<Rightarrow> error + 'db" where
  "import_data conn db df table_name if_exists =
     (if df_empty df then Inl (ValueError ''Cannot import empty DataFrame'')
      else if table_name = [] \<or> \<not> py_isalnum (py_remove (CHR ''_'') table_name)
      then Inl (ValueError (''Invalid table name: '' @ table_name))
      else case import_statements conn db df table_name if_exists of
             Inl msg \<Rightarrow>
               Inl (RuntimeError (''Failed to import data into table '' @ [CHR 0x27]
                                  @ table_name @ [CHR 0x27] @ '': '' @ msg))
           | Inr db' \<Rightarrow> Inr db')"

text \<open>
  \<open>execute_query\<close>. The parameter \<open>run\<close> is the connection at its current state:
  \<open>connection.execute(query).fetchall()\<close> with the column names of
  \<open>connection.description\<close>, or the text of the exception raised.
\<close>

definition execute_query ::
  "(string \<Rightarrow> string + 'cell dataframe) \<Rightarrow> string \<Rightarrow> error + 'cell dataframe" where
  "execute_query run query =
     (if query = [] \<or> py_strip query = [] then Inl (ValueError ''Query cannot be empty'')
      else case run query of
             Inl msg \<Rightarrow> Inl (RuntimeError (''Query execution failed: '' @ msg))
           | Inr result \<Rightarrow> Inr result)"

section \<open>Decoding uploaded bytes (file\_manager.py)\<close>

text \<open>
  The codecs are the runtime's. Latin-1 and ISO-8859-1 name one codec, which maps each
  byte to the code point of the same number; UTF-8 and CP1252 can refuse a byte sequence
  and are parameters (\<open>None\<close> is \<open>UnicodeDecodeError\<close>).
\<close>

type_synonym bytes = "8 word list"

datatype encoding = Utf8 | Latin1 | Iso8859_1 | Cp1252

fun encoding_name :: "encoding \<Rightarrow> string" where
  "encoding_name Utf8 = ''utf-8''"
| "encoding_name Latin1 = ''latin-1''"
| "encoding_name Iso8859_1 = ''iso-8859-1''"
| "encoding_name Cp1252 = ''cp1252''"

fun decode ::
  "(bytes \<Rightarrow> codepoint list option) \<Rightarrow> (bytes \<Rightarrow> codepoint list option) \<Rightarrow>
   encoding \<Rightarrow> bytes \<Rightarrow> codepoint list option" where
  "decode utf8 cp1252 Utf8 file_bytes = utf8 file_bytes"
| "decode utf8 cp1252 Latin1 file_bytes = Some (map unat file_bytes)"
| "decode utf8 cp1252 Iso8859_1 file_bytes = Some (map unat file_bytes)"
| "decode utf8 cp1252 Cp1252 file_bytes = cp1252 file_bytes"

text \<open>The \<open>for\<close> loop with its \<open>try\<close>: the first encoding that decodes wins.\<close>

fun first_decoding ::
  "(bytes \<Rightarrow> codepoint list option) \<Rightarrow> (bytes \<Rightarrow> codepoint list option) \<Rightarrow>
   encoding list \<Rightarrow> bytes \<Rightarrow> codepoint list option" where
  "first_decoding utf8 cp1252 [] file_bytes = None"
| "first_decoding utf8 cp1252 (encoding # rest) file_bytes =
     (case decode utf8 cp1252 encoding file_bytes of
        Some text \<Rightarrow> Some text
      | None \<Rightarrow> first_decoding utf8 cp1252 rest file_bytes)"

definition encodings :: "encoding list" where
  "encodings = [Utf8, Latin1, Iso8859_1, Cp1252]"

definition handle_encoding_error ::
  "(bytes \<Rightarrow> codepoint list option) \<Rightarrow> (bytes \<Rightarrow> codepoint list option) \<Rightarrow>
   bytes \<Rightarrow> error + codepoint list" where
  "handle_encoding_error utf8 cp1252 file_bytes =
     (case first_decoding utf8 cp1252 encodings file_bytes of
        Some text \<Rightarrow> Inr text
      | None \<Rightarrow>
          Inl (FileEncodingError (''Could not decode file with any supported encoding: ''
                                  @ py_join '', '' (map encoding_name encodings))))"

section \<open>The KPI aggregator (kpi\_calculator.py)\<close>

text \<open>
  One attempt of a KPI method: the filters are injected into the query text for the
  column list of the table tried, the rest of the statement is appended, and the query
  is run.
\<close>

definition kpi_attempt ::
  "(string \<Rightarrow> string + 'cell dataframe) \<Rightarrow> filters \<Rightarrow> string \<Rightarrow> string list \<Rightarrow> string \<Rightarrow>
   error + 'cell dataframe" where
  "kpi_attempt run filters query available_cols tail =
     execute_query run (apply_filters_to_query filters query (Some available_cols) @ tail)"

text \<open>\<open>except Exception as e: raise RuntimeError(f"Failed to calculate KPI n: {str(e)}")\<close>.\<close>

definition kpi_except :: "string \<Rightarrow> error + 'a \<Rightarrow> error + 'a" where
  "kpi_except n r =
     (case r of
        Inl e \<Rightarrow> Inl (RuntimeError (''Failed to calculate KPI '' @ n @ '': '' @ str_error e))
      | Inr x \<Rightarrow> Inr x)"

definition kpi_1_habits_query :: string where
  \<open>kpi_1_habits_query =
     ''\<newline>''
     @ ''            SELECT \<newline>''
     @ ''                gender as group,\<newline>''
     @ ''                AVG(exam_score) as average_score,\<newline>''
     @ ''                COUNT(*) as count\<newline>''
     @ ''            FROM student_habits_performance\<newline>''
     @ ''            ''\<close>

definition kpi_1_factors_query :: string where
  \<open>kpi_1_factors_query =
     ''\<newline>''
     @ ''                SELECT \<newline>''
     @ ''                    "Gender" as group,\<newline>''
     @ ''                    AVG("Exam_Score") as average_score,\<newline>''
     @ ''                    COUNT(*) as count\<newline>''
     @ ''                FROM student_performance_factors\<newline>''
     @ ''                ''\<close>

definition calculate_kpi_1_scores_by_group ::
  "(string \<Rightarrow> string + 'cell dataframe) \<Rightarrow> filters \<Rightarrow> error + 'cell dataframe" where
  \<open>calculate_kpi_1_scores_by_group run filters =
     kpi_except ''1''
       (and_then
          (kpi_attempt run filters kpi_1_habits_query
             [''age'', ''gender'', ''parental_education_level'', ''exam_score'']
             '' GROUP BY gender ORDER BY average_score DESC'')
          (\<lambda>result.
             if df_empty result then
               kpi_attempt run filters kpi_1_factors_query
                 [''Gender'', ''Parental_Education_Level'', ''Exam_Score'']
                 '' GROUP BY "Gender" ORDER BY average_score DESC''
             else Inr result))\<close>

definition kpi_2_habits_query :: string where
  \<open>kpi_2_habits_query =
     ''\<newline>''
     @ ''            SELECT \<newline>''
     @ ''                study_hours_per_day as study_hours,\<newline>''
     @ ''                exam_score\<newline>''
     @ ''            FROM student_habits_performance\<newline>''
     @ ''            WHERE study_hours_per_day IS NOT NULL \<newline>''
     @ ''                AND exam_score IS NOT NULL\<newline>''
     @ ''            ''\<close>

definition kpi_2_factors_query :: string where
  \<open>kpi_2_factors_query =
     ''\<newline>''
     @ ''                SELECT \<newline>''
     @ ''                    "Hours_Studied" as study_hours,\<newline>''
     @ ''                    "Exam_Score" as exam_score\<newline>''
     @ ''                FROM student_performance_factors\<newline>''
     @ ''                WHERE "Hours_Studied" IS NOT NULL \<newline>''
     @ ''                    AND "Exam_Score" IS NOT NULL\<newline>''
     @ ''                ''\<close>

definition calculate_kpi_2_study_correlation ::
  "(string \<Rightarrow> string + 'cell dataframe) \<Rightarrow> filters \<Rightarrow> error + 'cell dataframe" where
  \<open>calculate_kpi_2_study_correlation run filters =
     kpi_except ''2''
       (and_then
          (kpi_attempt run filters kpi_2_habits_query
             [''age'', ''gender'', ''parental_education_level'', ''study_hours_per_day'', ''exam_score'']
             '' ORDER BY study_hours_per_day'')
          (\<lambda>result.
             if df_empty result then
               kpi_attempt run filters kpi_2_factors_query
                 [''Gender'', ''Parental_Education_Level'', ''Hours_Studied'', ''Exam_Score'']
                 '' ORDER BY "Hours_Studied"''
             else Inr result))\<close>

definition kpi_3_habits_query :: string where
  \<open>kpi_3_habits_query =
     ''\<newline>''
     @ ''            SELECT \<newline>''
     @ ''                ROUND(attendance_percentage / 10) * 10 as attendance_range,\<newline>''
     @ ''                AVG(exam_score) as average_score,\<newline>''
     @ ''                COUNT(*) as count\<newline>''
     @ ''            FROM student_habits_performance\<newline>''
     @ ''            WHERE attendance_percentage IS NOT NULL \<newline>''
     @ ''                AND exam_score IS NOT NULL\<newline>''
     @ ''            ''\<close>

definition kpi_3_factors_query :: string where
  \<open>kpi_3_factors_query =
     ''\<newline>''
     @ ''                SELECT \<newline>''
     @ ''                    ROUND("Attendance" / 10) * 10 as attendance_range,\<newline>''
     @ ''                    AVG("Exam_Score") as average_score,\<newline>''
     @ ''                    COUNT(*) as count\<newline>''
     @ ''                FROM student_performance_factors\<newline>''
     @ ''                WHERE "Attendance" IS NOT NULL \<newline>''
     @ ''                    AND "Exam_Score" IS NOT NULL\<newline>''
     @ ''                ''\<close>

definition calculate_kpi_3_attendance_impact ::
  "(string \<Rightarrow> string + 'cell dataframe) \<Rightarrow> filters \<Rightarrow> error + 'cell dataframe" where
  \<open>calculate_kpi_3_attendance_impact run filters =
     kpi_except ''3''
       (and_then
          (kpi_attempt run filters kpi_3_habits_query
             [''age'', ''gender'', ''parental_education_level'', ''attendance_percentage'', ''exam_score'']
             '' GROUP BY ROUND(attendance_percentage / 10) * 10 ORDER BY attendance_range'')
          (\<lambda>result.
             if df_empty result then
               kpi_attempt run filters kpi_3_factors_query
                 [''Gender'', ''Parental_Education_Level'', ''Attendance'', ''Exam_Score'']
                 '' GROUP BY ROUND("Attendance" / 10) * 10 ORDER BY attendance_range''
             else Inr result))\<close>

definition kpi_4_habits_query :: string where
  \<open>kpi_4_habits_query =
     ''\<newline>''
     @ ''            SELECT \<newline>''
     @ ''                sleep_hours,\<newline>''
     @ ''                exam_score\<newline>''
     @ ''            FROM student_habits_performance\<newline>''
     @ ''            WHERE sleep_hours IS NOT NULL \<newline>''
     @ ''                AND exam_score IS NOT NULL\<newline>''
     @ ''            ''\<close>

definition kpi_4_factors_query :: string where
  \<open>kpi_4_factors_query =
     ''\<newline>''
     @ ''                SELECT \<newline>''
     @ ''                    "Sleep_Hours" as sleep_hours,\<newline>''
     @ ''                    "Exam_Score" as exam_score\<newline>''
     @ ''                FROM student_performance_factors\<newline>''
     @ ''                WHERE "Sleep_Hours" IS NOT NULL \<newline>''
     @ ''                    AND "Exam_Score" IS NOT NULL\<newline>''
     @ ''                ''\<close>

definition calculate_kpi_4_sleep_performance ::
  "(string \<Rightarrow> string + 'cell dataframe) \<Rightarrow> filters \<Rightarrow> error + 'cell dataframe" where
  \<open>calculate_kpi_4_sleep_performance run filters =
     kpi_except ''4''
       (and_then
          (kpi_attempt run filters kpi_4_habits_query
             [''age'', ''gender'', ''parental_education_level'', ''sleep_hours'', ''exam_score'']
             '' ORDER BY sleep_hours'')
          (\<lambda>result.
             if df_empty result then
               kpi_attempt run filters kpi_4_factors_query
                 [''Gender'', ''Parental_Education_Level'', ''Sleep_Hours'', ''Exam_Score'']
                 '' ORDER BY "Sleep_Hours"''
             else Inr result))\<close>

text \<open>
  \<open>calculate_correlation_coefficient\<close>. \<open>numpy.corrcoef\<close> is a parameter; the guard in
  front of it is the repository's.
\<close>

definition calculate_correlation_coefficient ::
  "('a list \<Rightarrow> 'a list \<Rightarrow> error + pyfloat) \<Rightarrow> 'a list \<Rightarrow> 'a list \<Rightarrow> error + pyfloat" where
  "calculate_correlation_coefficient corrcoef x y =
     (if length x < 2 \<or> length y < 2 then Inr (Finite 0)
      else corrcoef x y)"

section \<open>The identifier pattern of the specification, and inputs for the examples\<close>

text \<open>
  The specification gives the table identifier as the pattern \<open>[A-Za-z0-9_]+\<close>. The
  definition below follows those words; it is compared with the check \<open>import_data\<close>
  makes, which is \<open>py_isalnum\<close> after the underscores are removed.
\<close>

definition identifier_char :: "char \<Rightarrow> bool" where
  "identifier_char c = (let n = (of_char c :: nat) in
     (65 \<le> n \<and> n \<le> 90) \<or> (97 \<le> n \<and> n \<le> 122) \<or> (48 \<le> n \<and> n \<le> 57) \<or> n = 95)"

definition matches_identifier_pattern :: "string \<Rightarrow> bool" where
  "matches_identifier_pattern name = (name \<noteq> [] \<and> list_all identifier_char name)"

text \<open>The \<open>sample_df\<close> fixture of \<open>tests/test_database_manager.py\<close>.\<close>

definition sample_df :: "scalar dataframe" where
  "sample_df = \<lparr>columns = [''id'', ''name'', ''age'', ''score''],
     rows = [[SInt 1, SStr ''Alice'', SInt 25, SInt 85],
             [SInt 2, SStr ''Bob'', SInt 30, SInt 90],
             [SInt 3, SStr ''Charlie'', SInt 35, SInt 78],
             [SInt 4, SStr ''David'', SInt 28, SInt 92],
             [SInt 5, SStr ''Eve'', SInt 32, SInt 88]]\<rparr>"

text \<open>A connection on which every statement of \<open>import_data\<close> succeeds.\<close>

definition accepting_connection :: "(unit, scalar) duckdb" where
  "accepting_connection =
     \<lparr>execute = (\<lambda>db statement. Inr db),
      register = (\<lambda>db name df. Inr db),
      unregister = (\<lambda>db name. Inr db)\<rparr>"

text \<open>
  A store in which only \<open>student_performance_factors\<close> is loaded, with rows: DuckDB
  raises a catalog error for a query that names the table it does not hold, and returns
  rows for any other query.
\<close>

definition only_factors_loaded :: "string \<Rightarrow> string + scalar dataframe" where
  "only_factors_loaded query =
     (if py_in ''student_habits_performance'' query
      then Inl ''Catalog Error: Table with name student_habits_performance does not exist!''
      else Inr \<lparr>columns = [''Gender'', ''Exam_Score''],
                rows = [[SStr ''Male'', SInt 67], [SStr ''Female'', SInt 70]]\<rparr>)"

section \<open>Properties\<close>

subsection \<open>Shared lemmas\<close>

lemma bool_is_int_float: "isinstance_bool value \<Longrightarrow> isinstance_int_float value"
  by (cases "value" rule: isinstance_bool.cases) simp_all

lemma map_filter_drop:
  "(\<And>x. \<not> P x \<Longrightarrow> f x = None) \<Longrightarrow> List.map_filter f (filter P xs) = List.map_filter f xs"
  by (induction xs) (auto simp: List.map_filter_simps split: option.split)

lemma build_condition_None: "build_condition (key, PNone) = None"
  by (simp add: build_condition_def build_branch_def)

lemma kpi_filter_entry_None: "kpi_filter_entry cols (key, PNone) = None"
  by (simp add: kpi_filter_entry_def)

lemma validate_entry_None: "validate_entry (key, PNone) = Inr []"
  by (simp add: validate_entry_def)

lemma validate_loop_drop:
  "validate_loop (filter (\<lambda>e. snd e \<noteq> PNone) fs) errors = validate_loop fs errors"
proof (induction fs arbitrary: errors)
  case Nil
  show ?case by simp
next
  case (Cons e fs)
  show ?case
  proof (cases "snd e = PNone")
    case True
    then have "validate_entry e = Inr []"
      using validate_entry_None [of "fst e"] by (cases e) simp
    with True Cons show ?thesis by simp
  next
    case False
    with Cons show ?thesis by (simp split: sum.split)
  qed
qed

subsection \<open>The correlation guard\<close>

text \<open>
  C7. The Pearson-correlation function returns exactly 0.0, and no error, whenever either
  of its two input sequences has fewer than two elements, whatever \<open>numpy.corrcoef\<close>
  would have done with them.
\<close>

theorem correlation_short_input_is_zero:
  "length x < 2 \<or> length y < 2 \<Longrightarrow>
     calculate_correlation_coefficient corrcoef x y = Inr (Finite 0)"
  by (simp add: calculate_correlation_coefficient_def)

theorem correlation_short_input_is_zero_witness:
  "(length [1::int] < 2 \<or> length [2::int] < 2) \<and>
   calculate_correlation_coefficient (\<lambda>a b. Inl (ValueError ''unused'')) [1::int] [2]
     = Inr (Finite 0)"
  using correlation_short_input_is_zero
    [of "[1::int]" "[2::int]" "\<lambda>a b. Inl (ValueError ''unused'')"]
  by simp

subsection \<open>The encoding fallback\<close>

text \<open>
  C8. For every bytes input \<open>handle_encoding_error\<close> returns a decoded text and never
  raises \<open>FileEncodingError\<close>: the result is the UTF-8 decoding when that succeeds and
  the Latin-1 decoding otherwise, so the later encodings and the error are never reached.
\<close>

theorem handle_encoding_error_never_fails:
  "handle_encoding_error utf8 cp1252 file_bytes =
     Inr (case utf8 file_bytes of Some text \<Rightarrow> text | None \<Rightarrow> map unat file_bytes)"
  by (simp add: handle_encoding_error_def encodings_def split: option.split)

subsection \<open>The boolean branch of the general builder\<close>

text \<open>
  C9. In \<open>build_filter_query\<close> no value selects the boolean branch: a boolean passes the
  numeric test that comes first, and is emitted by the numeric branch as
  \<open>key = True\<close> or \<open>key = False\<close>, without quotes.
\<close>

theorem bool_branch_unreachable:
  "build_branch value \<noteq> BoolEquals \<and>
   build_branch (PScalar (SBool b)) = NumEquals \<and>
   build_condition (key, PScalar (SBool b))
     = Some (key @ '' = '' @ (if b then ''True'' else ''False''))"
  using bool_is_int_float [of "value"]
  by (auto simp: build_branch_def build_condition_def)

subsection \<open>Entries whose value is None\<close>

text \<open>
  C10. An entry whose value is \<open>None\<close> is skipped by all three operations: it adds no
  predicate in the general builder, none in the KPI injector and no message in
  \<open>validate_filters\<close>; so each operation gives the same result on a filter dictionary and
  on that dictionary without its \<open>None\<close> entries.
\<close>

theorem none_entries_skipped_everywhere:
  "build_condition (key, PNone) = None \<and>
   kpi_filter_entry cols (key, PNone) = None \<and>
   validate_entry (key, PNone) = Inr [] \<and>
   build_filter_query (filter (\<lambda>e. snd e \<noteq> PNone) fs) = build_filter_query fs \<and>
   apply_filters_to_query (filter (\<lambda>e. snd e \<noteq> PNone) fs) base cols
     = apply_filters_to_query fs base cols \<and>
   validate_filters (filter (\<lambda>e. snd e \<noteq> PNone) fs) = validate_filters fs"
proof -
  have b: "List.map_filter build_condition (filter (\<lambda>e. snd e \<noteq> PNone) fs)
             = List.map_filter build_condition fs"
    by (rule map_filter_drop) (auto simp: build_condition_def build_branch_def)
  have k: "List.map_filter (kpi_filter_entry cols) (filter (\<lambda>e. snd e \<noteq> PNone) fs)
             = List.map_filter (kpi_filter_entry cols) fs"
    by (rule map_filter_drop) (auto simp: kpi_filter_entry_def)
  have b0: "filter (\<lambda>e. snd e \<noteq> PNone) fs = [] \<Longrightarrow> List.map_filter build_condition fs = []"
    using b by (simp add: List.map_filter_simps)
  have k0: "filter (\<lambda>e. snd e \<noteq> PNone) fs = [] \<Longrightarrow>
              List.map_filter (kpi_filter_entry cols) fs = []"
    using k by (simp add: List.map_filter_simps)
  have bq: "build_filter_query (filter (\<lambda>e. snd e \<noteq> PNone) fs) = build_filter_query fs"
    using b b0 by (auto simp: build_filter_query_def Let_def List.map_filter_simps)
  have kq: "apply_filters_to_query (filter (\<lambda>e. snd e \<noteq> PNone) fs) base cols
              = apply_filters_to_query fs base cols"
    using k k0 by (auto simp: apply_filters_to_query_def Let_def List.map_filter_simps)
  have vq: "validate_filters (filter (\<lambda>e. snd e \<noteq> PNone) fs) = validate_filters fs"
    by (simp add: validate_filters_def validate_loop_drop)
  show ?thesis
    using bq kq vq build_condition_None kpi_filter_entry_None validate_entry_None by blast
qed

subsection \<open>Explicit validation of a filter dictionary\<close>

lemma py_gt_int: "py_gt (SInt a) (SInt b) = Inr (a > b)"
  by simp

lemma validate_loop_keeps:
  "validate_loop fs acc = Inr out \<Longrightarrow> acc \<noteq> [] \<Longrightarrow> out \<noteq> []"
  by (induction fs arbitrary: acc) (auto split: sum.splits)

lemma validate_loop_reports:
  "validate_loop fs acc = Inr out \<Longrightarrow> e \<in> set fs \<Longrightarrow> validate_entry e = Inr (m # ms)
   \<Longrightarrow> out \<noteq> []"
proof (induction fs arbitrary: acc)
  case Nil
  then show ?case by simp
next
  case (Cons f fs)
  show ?case
  proof (cases "e = f")
    case True
    with Cons.prems have "validate_loop fs (acc @ m # ms) = Inr out" by simp
    then show ?thesis using validate_loop_keeps by blast
  next
    case False
    with Cons.prems obtain new where "validate_loop fs (acc @ new) = Inr out" "e \<in> set fs"
      by (auto split: sum.splits)
    then show ?thesis using Cons.IH Cons.prems(3) by blast
  qed
qed

lemma validate_loop_clean:
  "(\<And>e. e \<in> set fs \<Longrightarrow> validate_entry e = Inr []) \<Longrightarrow> validate_loop fs acc = Inr acc"
  by (induction fs arbitrary: acc) auto

lemma not_accepted:
  assumes "e \<in> set fs" and "validate_entry e = Inr (m # ms)"
  shows "validate_filters fs \<noteq> Inr (True, errors)"
proof
  assume a: "validate_filters fs = Inr (True, errors)"
  then obtain out where o: "validate_loop fs [] = Inr out" "out = []"
    by (auto simp: validate_filters_def split: sum.splits)
  from validate_loop_reports [OF o(1) assms] o(2) show False by simp
qed

text \<open>
  C6. \<open>validate_filters\<close> does not accept a filter dictionary that holds an entry
  whose value is an empty list, nor one that holds a two-element range whose start is
  greater than its end; it accepts (returns \<open>(True, [])\<close>) a dictionary with no empty
  list whose ranges all have two ends with start not greater than end. So
  \<open>{a: []}\<close> and \<open>{a: (10, 5)}\<close> fail and \<open>{a: (5, 10)}\<close> succeeds. The two
  builders do no such check: the general builder emits \<open>BETWEEN lo AND hi\<close> for any
  two ends and nothing for an empty list, and the KPI injector emits the range over
  \<open>age\<close> for any two ends and nothing for a list.
\<close>

theorem validate_filters_rejects_and_accepts:
  \<open>((key, PList []) \<in> set fs \<longrightarrow> validate_filters fs \<noteq> Inr (True, errors)) \<and>
   ((key, PTuple [lo, hi]) \<in> set fs \<and> py_gt lo hi = Inr True
      \<longrightarrow> validate_filters fs \<noteq> Inr (True, errors)) \<and>
   ((\<forall>e \<in> set fs. snd e \<noteq> PList [] \<and>
        (\<forall>t. snd e = PTuple t \<longrightarrow> (\<exists>a b. t = [a, b] \<and> py_gt a b = Inr False)))
      \<longrightarrow> validate_filters fs = Inr (True, [])) \<and>
   py_gt (SInt i) (SInt j) = Inr (i > j) \<and>
   validate_filters [(''a'', PList [])] = Inr (False, [''Filter \'a\' has empty list'']) \<and>
   validate_filters [(''a'', PTuple [SInt 10, SInt 5])]
     = Inr (False, [''Filter \'a\' range start is greater than end'']) \<and>
   validate_filters [(''a'', PTuple [SInt 5, SInt 10])] = Inr (True, []) \<and>
   build_condition (key, PTuple [lo, hi])
     = Some (key @ '' BETWEEN '' @ format_scalar lo @ '' AND '' @ format_scalar hi) \<and>
   build_condition (key, PList []) = None \<and>
   kpi_filter_entry None (''age'', PTuple [lo, hi])
     = Some (''"age" BETWEEN '' @ format_scalar lo @ '' AND '' @ format_scalar hi) \<and>
   kpi_filter_entry cols (key, PList xs) = None\<close>
proof -
  have r1: "(key, PList []) \<in> set fs \<longrightarrow> validate_filters fs \<noteq> Inr (True, errors)"
  proof
    assume m: "(key, PList []) \<in> set fs"
    have "validate_entry (key, PList [])
            = Inr [''Filter '' @ [CHR 0x27] @ key @ [CHR 0x27] @ '' has empty list'']"
      by (simp add: validate_entry_def)
    with m show "validate_filters fs \<noteq> Inr (True, errors)" using not_accepted by blast
  qed
  have r2: "(key, PTuple [lo, hi]) \<in> set fs \<and> py_gt lo hi = Inr True
              \<longrightarrow> validate_filters fs \<noteq> Inr (True, errors)"
  proof
    assume m: "(key, PTuple [lo, hi]) \<in> set fs \<and> py_gt lo hi = Inr True"
    then have "validate_entry (key, PTuple [lo, hi])
            = Inr [''Filter '' @ [CHR 0x27] @ key @ [CHR 0x27]
                   @ '' range start is greater than end'']"
      by (simp add: validate_entry_def)
    with m show "validate_filters fs \<noteq> Inr (True, errors)" using not_accepted by blast
  qed
  have r3: "(\<forall>e \<in> set fs. snd e \<noteq> PList [] \<and>
        (\<forall>t. snd e = PTuple t \<longrightarrow> (\<exists>a b. t = [a, b] \<and> py_gt a b = Inr False)))
      \<longrightarrow> validate_filters fs = Inr (True, [])"
  proof
    assume w: "\<forall>e \<in> set fs. snd e \<noteq> PList [] \<and>
        (\<forall>t. snd e = PTuple t \<longrightarrow> (\<exists>a b. t = [a, b] \<and> py_gt a b = Inr False))"
    have "validate_entry e = Inr []" if "e \<in> set fs" for e
    proof (cases "snd e")
      case PNone
      then show ?thesis by (simp add: validate_entry_def)
    next
      case (PScalar s)
      then show ?thesis by (simp add: validate_entry_def)
    next
      case (PList xs)
      with w that have "xs \<noteq> []" by auto
      with PList show ?thesis by (simp add: validate_entry_def)
    next
      case (PTuple t)
      with w that obtain a b where "t = [a, b]" "py_gt a b = Inr False" by blast
      with PTuple show ?thesis by (simp add: validate_entry_def)
    qed
    then have "validate_loop fs [] = Inr []" by (rule validate_loop_clean)
    then show "validate_filters fs = Inr (True, [])" by (simp add: validate_filters_def)
  qed
  have c1: \<open>validate_filters [(''a'', PList [])] = Inr (False, [''Filter \'a\' has empty list''])\<close>
    by (simp add: validate_filters_def validate_entry_def)
  have c2: \<open>validate_filters [(''a'', PTuple [SInt 10, SInt 5])]
     = Inr (False, [''Filter \'a\' range start is greater than end''])\<close>
    by (simp add: validate_filters_def validate_entry_def)
  have c3: "validate_filters [(''a'', PTuple [SInt 5, SInt 10])] = Inr (True, [])"
    by (simp add: validate_filters_def validate_entry_def)
  have i1: "build_condition (key, PTuple [lo, hi])
     = Some (key @ '' BETWEEN '' @ format_scalar lo @ '' AND '' @ format_scalar hi)"
    by (simp add: build_condition_def build_branch_def)
  have i2: "build_condition (key, PList []) = None"
    by (simp add: build_condition_def build_branch_def)
  have i3: \<open>kpi_filter_entry None (''age'', PTuple [lo, hi])
     = Some (''"age" BETWEEN '' @ format_scalar lo @ '' AND '' @ format_scalar hi)\<close>
    by (simp add: kpi_filter_entry_def resolve_column_def kpi_condition_def)
  have i4: "kpi_filter_entry cols (key, PList xs) = None"
    by (simp add: kpi_filter_entry_def kpi_condition_def split: option.split)
  show ?thesis using r1 r2 r3 c1 c2 c3 i1 i2 i3 i4 py_gt_int by blast
qed

theorem validate_filters_rejects_and_accepts_witness:
  "(''b'', PList []) \<in> set [(''a'', PTuple [SInt 5, SInt 10]), (''b'', PList [])] \<and>
   validate_filters [(''a'', PTuple [SInt 5, SInt 10]), (''b'', PList [])] \<noteq> Inr (True, []) \<and>
   (''a'', PTuple [SInt 10, SInt 5]) \<in> set [(''a'', PTuple [SInt 10, SInt 5])] \<and>
   py_gt (SInt 10) (SInt 5) = Inr True \<and>
   validate_filters [(''a'', PTuple [SInt 10, SInt 5])] \<noteq> Inr (True, []) \<and>
   validate_filters [(''g'', PList [SStr ''Male'']), (''age'', PTuple [SInt 25, SInt 35])]
     = Inr (True, [])"
  using validate_filters_rejects_and_accepts
          [of "''b''" "[(''a'', PTuple [SInt 5, SInt 10]), (''b'', PList [])]" "[]"]
        validate_filters_rejects_and_accepts
          [of "''a''" "[(''a'', PTuple [SInt 10, SInt 5])]" "[]" "SInt 10" "SInt 5"]
        validate_filters_rejects_and_accepts
          [of _ "[(''g'', PList [SStr ''Male'']), (''age'', PTuple [SInt 25, SInt 35])]"]
  by simp

subsection \<open>Resolving a filter key against the known columns\<close>

lemmas lower_eval = py_lower_def lower_char_def upper_letters_def lower_letters_def

lemma resolve_column_found:
  assumes "cols \<noteq> []" "col \<in> set cols" "py_lower col = py_lower key"
  shows "\<exists>c \<in> set cols. py_lower c = py_lower key \<and> resolve_column (Some cols) key = Some c"
proof -
  from assms have "find (\<lambda>c. py_lower c = py_lower key) cols \<noteq> None"
    by (auto simp: find_None_iff)
  then obtain c where c: "find (\<lambda>c. py_lower c = py_lower key) cols = Some c" by blast
  then have "c \<in> set cols \<and> py_lower c = py_lower key"
    by (auto simp: find_Some_iff)
  with assms c show ?thesis by (auto simp: resolve_column_def)
qed

lemma resolve_column_sound:
  "cols \<noteq> [] \<Longrightarrow> resolve_column (Some cols) key = Some c \<Longrightarrow>
     c \<in> set cols \<and> py_lower c = py_lower key"
  by (auto simp: resolve_column_def find_Some_iff)

lemma resolve_column_missing:
  "cols \<noteq> [] \<Longrightarrow> \<forall>c \<in> set cols. py_lower c \<noteq> py_lower key \<Longrightarrow>
     resolve_column (Some cols) key = None"
  by (auto simp: resolve_column_def find_None_iff)

lemma apply_conditions:
  "List.map_filter (kpi_filter_entry cols) fs \<noteq> [] \<Longrightarrow>
     apply_filters_to_query fs base cols
       = base @ (if has_where base then '' AND '' else '' WHERE '')
           @ py_join '' AND '' (List.map_filter (kpi_filter_entry cols) fs)"
  by (auto simp: apply_filters_to_query_def Let_def List.map_filter_simps)

lemma apply_single:
  "kpi_filter_entry cols e = Some p \<Longrightarrow>
     apply_filters_to_query [e] base cols
       = base @ (if has_where base then '' AND '' else '' WHERE '') @ p"
  by (simp add: apply_filters_to_query_def List.map_filter_simps)


lemma is_prefix_append: "is_prefix xs (xs @ zs)"
  by (induction xs) simp_all

lemma py_in_append_left: "py_in n h \<Longrightarrow> py_in n (pre @ h)"
  by (induction pre) simp_all

lemma py_in_here: "py_in n (n @ post)"
  by (cases "n @ post") (auto simp: is_prefix_append, metis is_prefix_append)

lemma py_in_middle: "py_in n (pre @ n @ post)"
  by (rule py_in_append_left) (rule py_in_here)

lemma show_18_25: "show_int 18 = ''18''" "show_int 25 = ''25''"
  by (simp_all add: show_int_def show_nat.simps)

lemma lower_age: "py_lower ''age'' = ''age''"
  by (simp add: lower_eval)

text \<open>
  C5. Schema resolution in the KPI injector ignores letter case: when a non-empty column
  list holds a column equal to the filter key under \<open>lower()\<close>, the key resolves to a
  column of the list that is equal to it under \<open>lower()\<close>, and the predicate emitted
  for a text or a number is written with that column exactly as the list spells it;
  whatever the key resolves to is such a column. With no column list (\<open>None\<close> or
  empty) the key is used as it is. So the key \<open>Gender\<close> matches the column
  \<open>gender\<close> and the key \<open>gender\<close> matches the column \<open>Gender\<close>.
\<close>

theorem schema_resolution_case_insensitive:
  \<open>(cols \<noteq> [] \<and> col \<in> set cols \<and> py_lower col = py_lower key \<longrightarrow>
      (\<exists>c \<in> set cols. py_lower c = py_lower key \<and> resolve_column (Some cols) key = Some c \<and>
         kpi_filter_entry (Some cols) (key, PScalar (SStr s))
           = Some (''"'' @ c @ ''" = '' @ [CHR 0x27] @ s @ [CHR 0x27]) \<and>
         kpi_filter_entry (Some cols) (key, PScalar (SInt i))
           = Some (''"'' @ c @ ''" = '' @ show_int i))) \<and>
   (cols \<noteq> [] \<and> resolve_column (Some cols) key = Some c \<longrightarrow>
      c \<in> set cols \<and> py_lower c = py_lower key) \<and>
   resolve_column None key = Some key \<and>
   resolve_column (Some []) key = Some key \<and>
   kpi_filter_entry None (key, PScalar (SStr s))
     = Some (''"'' @ key @ ''" = '' @ [CHR 0x27] @ s @ [CHR 0x27]) \<and>
   resolve_column (Some [''age'', ''gender'']) ''Gender'' = Some ''gender'' \<and>
   resolve_column (Some [''Gender'', ''Exam_Score'']) ''gender'' = Some ''Gender'' \<and>
   apply_filters_to_query [(''Gender'', PScalar (SStr ''Male''))] base (Some [''age'', ''gender''])
     = base @ (if has_where base then '' AND '' else '' WHERE '')
         @ ''"gender" = \'Male'' @ [CHR 0x27] \<and>
   apply_filters_to_query [(''gender'', PScalar (SStr ''Male''))] base
       (Some [''Gender'', ''Exam_Score''])
     = base @ (if has_where base then '' AND '' else '' WHERE '')
         @ ''"Gender" = \'Male'' @ [CHR 0x27]\<close>
proof -
  have a: \<open>cols \<noteq> [] \<and> col \<in> set cols \<and> py_lower col = py_lower key \<longrightarrow>
      (\<exists>c \<in> set cols. py_lower c = py_lower key \<and> resolve_column (Some cols) key = Some c \<and>
         kpi_filter_entry (Some cols) (key, PScalar (SStr s))
           = Some (''"'' @ c @ ''" = '' @ [CHR 0x27] @ s @ [CHR 0x27]) \<and>
         kpi_filter_entry (Some cols) (key, PScalar (SInt i))
           = Some (''"'' @ c @ ''" = '' @ show_int i))\<close>
  proof
    assume h: "cols \<noteq> [] \<and> col \<in> set cols \<and> py_lower col = py_lower key"
    then obtain c where c: "c \<in> set cols" "py_lower c = py_lower key"
        "resolve_column (Some cols) key = Some c"
      using resolve_column_found [of cols col key] by blast
    then show \<open>\<exists>c \<in> set cols. py_lower c = py_lower key \<and> resolve_column (Some cols) key = Some c \<and>
         kpi_filter_entry (Some cols) (key, PScalar (SStr s))
           = Some (''"'' @ c @ ''" = '' @ [CHR 0x27] @ s @ [CHR 0x27]) \<and>
         kpi_filter_entry (Some cols) (key, PScalar (SInt i))
           = Some (''"'' @ c @ ''" = '' @ show_int i)\<close>
      by (intro bexI [of _ c]) (simp_all add: kpi_filter_entry_def kpi_condition_def)
  qed
  have b: "cols \<noteq> [] \<and> resolve_column (Some cols) key = Some c \<longrightarrow>
      c \<in> set cols \<and> py_lower c = py_lower key"
    using resolve_column_sound by blast
  have c: "resolve_column None key = Some key" "resolve_column (Some []) key = Some key"
    by (simp_all add: resolve_column_def)
  have d: \<open>kpi_filter_entry None (key, PScalar (SStr s))
     = Some (''"'' @ key @ ''" = '' @ [CHR 0x27] @ s @ [CHR 0x27])\<close>
    by (simp add: kpi_filter_entry_def kpi_condition_def resolve_column_def)
  have e: "resolve_column (Some [''age'', ''gender'']) ''Gender'' = Some ''gender''"
    "resolve_column (Some [''Gender'', ''Exam_Score'']) ''gender'' = Some ''Gender''"
    by (simp_all add: resolve_column_def lower_eval)
  have f: \<open>apply_filters_to_query [(''Gender'', PScalar (SStr ''Male''))] base
       (Some [''age'', ''gender''])
     = base @ (if has_where base then '' AND '' else '' WHERE '')
         @ ''"gender" = \'Male'' @ [CHR 0x27]\<close>
    by (rule apply_single [THEN trans])
       (simp_all add: kpi_filter_entry_def kpi_condition_def e)
  have g: \<open>apply_filters_to_query [(''gender'', PScalar (SStr ''Male''))] base
       (Some [''Gender'', ''Exam_Score''])
     = base @ (if has_where base then '' AND '' else '' WHERE '')
         @ ''"Gender" = \'Male'' @ [CHR 0x27]\<close>
    by (rule apply_single [THEN trans])
       (simp_all add: kpi_filter_entry_def kpi_condition_def e)
  show ?thesis using a b c d e f g by blast
qed

theorem schema_resolution_case_insensitive_witness:
  \<open>[''age'', ''gender''] \<noteq> [] \<and> ''gender'' \<in> set [''age'', ''gender''] \<and>
   py_lower ''gender'' = py_lower ''Gender'' \<and>
   resolve_column (Some [''age'', ''gender'']) ''Gender'' = Some ''gender'' \<and>
   kpi_filter_entry (Some [''age'', ''gender'']) (''Gender'', PScalar (SStr ''Male''))
     = Some (''"gender" = \'Male'' @ [CHR 0x27])\<close>
  using schema_resolution_case_insensitive
          [of "[''age'', ''gender'']" "''gender''" "''Gender''" "''Male''" 0 "''gender''"]
  by (simp add: lower_eval)

subsection \<open>Filters that leave the query unchanged\<close>

lemmas where_eval = has_where_def py_upper_def upper_char_def codepoints_def

lemma no_where_example: "has_where ''SELECT * FROM t'' = False"
  by (simp add: where_eval)

lemma kpi_filter_entry_missing:
  "cols \<noteq> [] \<Longrightarrow> \<forall>c \<in> set cols. py_lower c \<noteq> py_lower (fst e) \<Longrightarrow>
     kpi_filter_entry (Some cols) e = None"
  using resolve_column_missing [of cols "fst e"]
  by (simp add: kpi_filter_entry_def Let_def)

lemma map_filter_all_None:
  "(\<And>x. x \<in> set xs \<Longrightarrow> f x = None) \<Longrightarrow> List.map_filter f xs = []"
  by (induction xs) (simp_all add: List.map_filter_simps)

text \<open>
  C4. The claim is what the docstring of \<open>_apply_filters_to_query\<close> promises (filters
  are applied "only for columns that exist"), and the code departs from it at a
  known-column list that is given but empty: \<open>if available_columns:\<close> is false for the
  empty list, so the key is used as it is although no column matches it, and a predicate
  is appended to the query.
\<close>

theorem empty_column_list_applies_filter:
  \<open>apply_filters_to_query [(''gender'', PScalar (SStr ''Male''))] ''SELECT * FROM t'' (Some [])
     = ''SELECT * FROM t WHERE "gender" = \'Male'' @ [CHR 0x27] \<and>
   apply_filters_to_query [(''gender'', PScalar (SStr ''Male''))] ''SELECT * FROM t'' (Some [])
     \<noteq> ''SELECT * FROM t''\<close>
  by (simp add: apply_filters_to_query_def List.map_filter_simps kpi_filter_entry_def
        kpi_condition_def resolve_column_def no_where_example)

text \<open>
  On every other input the injector does what C4 says: it returns the base query unchanged
  when the filter dictionary is empty, and when the known-column list is non-empty and no
  key of the dictionary equals any of its columns under \<open>lower()\<close>.
\<close>

theorem unknown_attributes_leave_query_unchanged:
  "apply_filters_to_query [] base known = base \<and>
   (cols \<noteq> [] \<and> (\<forall>e \<in> set fs. \<forall>c \<in> set cols. py_lower c \<noteq> py_lower (fst e))
      \<longrightarrow> apply_filters_to_query fs base (Some cols) = base)"
proof -
  have a: "apply_filters_to_query [] base known = base"
    by (simp add: apply_filters_to_query_def)
  have b: "cols \<noteq> [] \<and> (\<forall>e \<in> set fs. \<forall>c \<in> set cols. py_lower c \<noteq> py_lower (fst e))
      \<longrightarrow> apply_filters_to_query fs base (Some cols) = base"
  proof
    assume h: "cols \<noteq> [] \<and> (\<forall>e \<in> set fs. \<forall>c \<in> set cols. py_lower c \<noteq> py_lower (fst e))"
    then have "List.map_filter (kpi_filter_entry (Some cols)) fs = []"
      by (intro map_filter_all_None kpi_filter_entry_missing) auto
    then show "apply_filters_to_query fs base (Some cols) = base"
      by (simp add: apply_filters_to_query_def)
  qed
  show ?thesis using a b by blast
qed

theorem unknown_attributes_leave_query_unchanged_witness:
  "[''age'', ''gender''] \<noteq> [] \<and>
   py_lower ''age'' \<noteq> py_lower ''unknown_attr'' \<and>
   py_lower ''gender'' \<noteq> py_lower ''unknown_attr'' \<and>
   apply_filters_to_query [(''unknown_attr'', PScalar (SStr ''X''))] ''SELECT * FROM t''
      (Some [''age'', ''gender'']) = ''SELECT * FROM t''"
  using unknown_attributes_leave_query_unchanged
          [of "''SELECT * FROM t''" _ "[''age'', ''gender'']"
              "[(''unknown_attr'', PScalar (SStr ''X''))]"]
  by (simp add: lower_eval)

subsection \<open>The range over age and the joining keyword\<close>

text \<open>
  C2, as stated, fails when a column that differs from \<open>age\<close> only in letter case comes
  before it in the list: the first match is taken, and the predicate is written over that
  column.
\<close>

theorem first_match_counterexample:
  \<open>apply_filters_to_query [(''age'', PTuple [SInt 18, SInt 25])] ''SELECT * FROM t''
      (Some [''AGE'', ''age''])
     = ''SELECT * FROM t WHERE "AGE" BETWEEN 18 AND 25'' \<and>
   \<not> py_in ''"age" BETWEEN 18 AND 25''
       (apply_filters_to_query [(''age'', PTuple [SInt 18, SInt 25])] ''SELECT * FROM t''
          (Some [''AGE'', ''age'']))\<close>
  by (simp add: apply_filters_to_query_def List.map_filter_simps kpi_filter_entry_def
        kpi_condition_def resolve_column_def no_where_example lower_eval show_18_25)

lemma resolve_column_first:
  assumes "cols \<noteq> []" "col \<in> set cols" "py_lower col = py_lower key"
  shows "\<exists>i < length cols. py_lower (cols ! i) = py_lower key \<and>
           (\<forall>j < i. py_lower (cols ! j) \<noteq> py_lower key) \<and>
           resolve_column (Some cols) key = Some (cols ! i)"
proof -
  from assms have "find (\<lambda>c. py_lower c = py_lower key) cols \<noteq> None"
    by (auto simp: find_None_iff)
  then obtain c where c: "find (\<lambda>c. py_lower c = py_lower key) cols = Some c" by blast
  then obtain i where i: "i < length cols" "py_lower (cols ! i) = py_lower key"
      "c = cols ! i" "\<forall>j < i. py_lower (cols ! j) \<noteq> py_lower key"
    unfolding find_Some_iff by blast
  from c i(3) assms(1) have "resolve_column (Some cols) key = Some (cols ! i)"
    by (simp add: resolve_column_def)
  with i show ?thesis by blast
qed

lemma age_entry_first:
  assumes "''age'' \<in> set cols"
  shows \<open>\<exists>i < length cols. py_lower (cols ! i) = ''age'' \<and>
     (\<forall>j < i. py_lower (cols ! j) \<noteq> ''age'') \<and>
     kpi_filter_entry (Some cols) (''age'', PTuple [SInt 18, SInt 25])
       = Some (''"'' @ cols ! i @ ''" BETWEEN 18 AND 25'')\<close>
proof -
  from assms have ne: "cols \<noteq> []" by auto
  from resolve_column_first [OF ne assms, of "''age''"] lower_age
  obtain i where i: "i < length cols" "py_lower (cols ! i) = ''age''"
      "\<forall>j < i. py_lower (cols ! j) \<noteq> ''age''"
      "resolve_column (Some cols) ''age'' = Some (cols ! i)"
    by auto
  have \<open>kpi_filter_entry (Some cols) (''age'', PTuple [SInt 18, SInt 25])
       = Some (''"'' @ cols ! i @ ''" BETWEEN 18 AND 25'')\<close>
    using i(4) by (simp add: kpi_filter_entry_def kpi_condition_def show_18_25)
  with i(1,2,3) show ?thesis by blast
qed

lemma where_examples:
  "has_where ''select a from t where b > 1''"
  "has_where ''SELECT a FROM t WHERE b > 1''"
  "\<not> has_where ''SELECT a FROM t''"
  by (simp_all add: where_eval)

text \<open>
  C2, amended. For every base query and every known-column list that holds \<open>age\<close>,
  injecting \<open>{age: (18, 25)}\<close> appends the range predicate with both bounds over the
  first column of the list, in list order, that is equal to \<open>age\<close> under
  \<open>lower()\<close>: no column before it is. That column is \<open>age\<close> itself, and the result
  holds \<open>"age" BETWEEN 18 AND 25\<close>, when no column of the list differs from \<open>age\<close>
  only in letter case. Whenever at least one predicate is emitted, the predicates joined by
  \<open>AND\<close> are appended to the base query with \<open>WHERE\<close> if the uppercased base query
  does not hold \<open>WHERE\<close>, and with \<open>AND\<close> if it does; a \<open>where\<close> in lower
  case is found by that search.
\<close>

theorem age_range_injection:
  \<open>(''age'' \<in> set cols \<longrightarrow>
      (\<exists>i < length cols. py_lower (cols ! i) = ''age'' \<and>
         (\<forall>j < i. py_lower (cols ! j) \<noteq> ''age'') \<and>
         apply_filters_to_query [(''age'', PTuple [SInt 18, SInt 25])] base (Some cols)
           = base @ (if has_where base then '' AND '' else '' WHERE '')
               @ ''"'' @ cols ! i @ ''" BETWEEN 18 AND 25'')) \<and>
   (''age'' \<in> set cols \<and> (\<forall>c \<in> set cols. py_lower c = ''age'' \<longrightarrow> c = ''age'') \<longrightarrow>
      apply_filters_to_query [(''age'', PTuple [SInt 18, SInt 25])] base (Some cols)
        = base @ (if has_where base then '' AND '' else '' WHERE '')
            @ ''"age" BETWEEN 18 AND 25'' \<and>
      py_in ''"age" BETWEEN 18 AND 25''
        (apply_filters_to_query [(''age'', PTuple [SInt 18, SInt 25])] base (Some cols))) \<and>
   (List.map_filter (kpi_filter_entry known) fs \<noteq> [] \<longrightarrow>
      apply_filters_to_query fs base known
        = base @ (if has_where base then '' AND '' else '' WHERE '')
            @ py_join '' AND '' (List.map_filter (kpi_filter_entry known) fs)) \<and>
   has_where ''select a from t where b > 1'' \<and>
   has_where ''SELECT a FROM t WHERE b > 1'' \<and>
   \<not> has_where ''SELECT a FROM t''\<close>
proof -
  have a: \<open>''age'' \<in> set cols \<longrightarrow>
      (\<exists>i < length cols. py_lower (cols ! i) = ''age'' \<and>
         (\<forall>j < i. py_lower (cols ! j) \<noteq> ''age'') \<and>
         apply_filters_to_query [(''age'', PTuple [SInt 18, SInt 25])] base (Some cols)
           = base @ (if has_where base then '' AND '' else '' WHERE '')
               @ ''"'' @ cols ! i @ ''" BETWEEN 18 AND 25'')\<close>
  proof
    assume "''age'' \<in> set cols"
    from age_entry_first [OF this] obtain i where i: "i < length cols"
       "py_lower (cols ! i) = ''age''" "\<forall>j < i. py_lower (cols ! j) \<noteq> ''age''"
       \<open>kpi_filter_entry (Some cols) (''age'', PTuple [SInt 18, SInt 25])
          = Some (''"'' @ cols ! i @ ''" BETWEEN 18 AND 25'')\<close>
      by blast
    from apply_single [OF i(4), of base]
    have \<open>apply_filters_to_query [(''age'', PTuple [SInt 18, SInt 25])] base (Some cols)
           = base @ (if has_where base then '' AND '' else '' WHERE '')
               @ ''"'' @ cols ! i @ ''" BETWEEN 18 AND 25''\<close>
      by simp
    with i(1,2,3)
    show \<open>\<exists>i < length cols. py_lower (cols ! i) = ''age'' \<and>
         (\<forall>j < i. py_lower (cols ! j) \<noteq> ''age'') \<and>
         apply_filters_to_query [(''age'', PTuple [SInt 18, SInt 25])] base (Some cols)
           = base @ (if has_where base then '' AND '' else '' WHERE '')
               @ ''"'' @ cols ! i @ ''" BETWEEN 18 AND 25''\<close>
      by blast
  qed
  have b: \<open>''age'' \<in> set cols \<and> (\<forall>c \<in> set cols. py_lower c = ''age'' \<longrightarrow> c = ''age'') \<longrightarrow>
      apply_filters_to_query [(''age'', PTuple [SInt 18, SInt 25])] base (Some cols)
        = base @ (if has_where base then '' AND '' else '' WHERE '')
            @ ''"age" BETWEEN 18 AND 25'' \<and>
      py_in ''"age" BETWEEN 18 AND 25''
        (apply_filters_to_query [(''age'', PTuple [SInt 18, SInt 25])] base (Some cols))\<close>
  proof
    assume h: "''age'' \<in> set cols \<and> (\<forall>c \<in> set cols. py_lower c = ''age'' \<longrightarrow> c = ''age'')"
    with a obtain i where i: "i < length cols" "py_lower (cols ! i) = ''age''"
       \<open>apply_filters_to_query [(''age'', PTuple [SInt 18, SInt 25])] base (Some cols)
           = base @ (if has_where base then '' AND '' else '' WHERE '')
               @ ''"'' @ cols ! i @ ''" BETWEEN 18 AND 25''\<close>
      by blast
    from i(1) have "cols ! i \<in> set cols" by simp
    with h i(2) have "cols ! i = ''age''" by blast
    with i(3) have e: \<open>apply_filters_to_query [(''age'', PTuple [SInt 18, SInt 25])] base (Some cols)
        = base @ (if has_where base then '' AND '' else '' WHERE '')
            @ ''"age" BETWEEN 18 AND 25''\<close>
      by simp
    have \<open>py_in ''"age" BETWEEN 18 AND 25''
            ((base @ (if has_where base then '' AND '' else '' WHERE ''))
               @ ''"age" BETWEEN 18 AND 25'' @ [])\<close>
      by (rule py_in_middle)
    with e show \<open>apply_filters_to_query [(''age'', PTuple [SInt 18, SInt 25])] base (Some cols)
        = base @ (if has_where base then '' AND '' else '' WHERE '')
            @ ''"age" BETWEEN 18 AND 25'' \<and>
      py_in ''"age" BETWEEN 18 AND 25''
        (apply_filters_to_query [(''age'', PTuple [SInt 18, SInt 25])] base (Some cols))\<close>
      by simp
  qed
  have c: \<open>List.map_filter (kpi_filter_entry known) fs \<noteq> [] \<longrightarrow>
      apply_filters_to_query fs base known
        = base @ (if has_where base then '' AND '' else '' WHERE '')
            @ py_join '' AND '' (List.map_filter (kpi_filter_entry known) fs)\<close>
    using apply_conditions by blast
  show ?thesis using a b c where_examples by blast
qed

theorem age_range_injection_witness:
  \<open>''age'' \<in> set [''age'', ''gender''] \<and>
   List.map_filter (kpi_filter_entry (Some [''age'', ''gender'']))
     [(''age'', PTuple [SInt 18, SInt 25])] \<noteq> [] \<and>
   apply_filters_to_query [(''age'', PTuple [SInt 18, SInt 25])] ''SELECT * FROM t''
       (Some [''age'', ''gender''])
     = ''SELECT * FROM t WHERE "age" BETWEEN 18 AND 25'' \<and>
   apply_filters_to_query [(''age'', PTuple [SInt 18, SInt 25])]
       ''SELECT * FROM t WHERE x IS NOT NULL'' (Some [''age'', ''gender''])
     = ''SELECT * FROM t WHERE x IS NOT NULL AND "age" BETWEEN 18 AND 25''\<close>
proof -
  have k: \<open>kpi_filter_entry (Some [''age'', ''gender'']) (''age'', PTuple [SInt 18, SInt 25])
             = Some ''"age" BETWEEN 18 AND 25''\<close>
    by (simp add: kpi_filter_entry_def kpi_condition_def resolve_column_def lower_eval show_18_25)
  have w: "has_where ''SELECT * FROM t WHERE x IS NOT NULL''"
    by (simp add: where_eval)
  show ?thesis
    using age_range_injection
            [of "[''age'', ''gender'']" "''SELECT * FROM t''" "Some [''age'', ''gender'']"
                "[(''age'', PTuple [SInt 18, SInt 25])]"]
          age_range_injection
            [of "[''age'', ''gender'']" "''SELECT * FROM t WHERE x IS NOT NULL''"
                "Some [''age'', ''gender'']" "[(''age'', PTuple [SInt 18, SInt 25])]"]
    by (simp add: k w no_where_example lower_eval List.map_filter_simps)
qed


subsection \<open>What \<open>import_data\<close> refuses\<close>

lemma underscore_code: "((of_char c :: nat) = 95) = (c = CHR ''_'')"
proof -
  have "(of_char (CHR ''_'') :: nat) = 95" by simp
  then show ?thesis by (metis of_char_eq_iff)
qed

lemma identifier_char_isalnum:
  assumes "identifier_char c" and "c \<noteq> CHR ''_''"
  shows "isalnum_char c"
proof -
  have "(of_char c :: nat) \<noteq> 95" using assms(2) by (simp add: underscore_code)
  with assms(1) show ?thesis
    unfolding identifier_char_def isalnum_char_def Let_def by blast
qed

lemma ascii_outside_pattern:
  assumes "(of_char c :: nat) < 128" and "\<not> identifier_char c"
  shows "c \<noteq> CHR ''_'' \<and> \<not> isalnum_char c"
proof
  show "c \<noteq> CHR ''_''"
  proof
    assume "c = CHR ''_''"
    then have "identifier_char c" by (simp add: identifier_char_def)
    with assms(2) show False by simp
  qed
next
  define n where "n = (of_char c :: nat)"
  have lt: "n < 128" using assms(1) by (simp add: n_def)
  have a: "\<not> (48 \<le> n \<and> n \<le> 57)" and b: "\<not> (65 \<le> n \<and> n \<le> 90)"
    and d: "\<not> (97 \<le> n \<and> n \<le> 122)"
    using assms(2) unfolding identifier_char_def Let_def n_def by blast+
  have e: "n \<noteq> 170" "n \<noteq> 178" "n \<noteq> 179" "n \<noteq> 181" "n \<noteq> 185" "n \<noteq> 186"
    using lt by simp_all
  have f: "\<not> (188 \<le> n \<and> n \<le> 190)" "\<not> (192 \<le> n \<and> n \<le> 214)"
    "\<not> (216 \<le> n \<and> n \<le> 246)" "\<not> (248 \<le> n \<and> n \<le> 255)"
    using lt by simp_all
  show "\<not> isalnum_char c"
    unfolding isalnum_char_def Let_def n_def [symmetric]
    using a b d e f by blast
qed

lemma name_check:
  "(name = [] \<or> \<not> py_isalnum (py_remove (CHR ''_'') name))
   = (py_remove (CHR ''_'') name = [] \<or> (\<exists>c \<in> set name. c \<noteq> CHR ''_'' \<and> \<not> isalnum_char c))"
proof -
  have 1: "list_all isalnum_char (py_remove (CHR ''_'') name)
           = (\<forall>c \<in> set name. c \<noteq> CHR ''_'' \<longrightarrow> isalnum_char c)"
    unfolding py_remove_def list_all_iff set_filter by blast
  have 2: "name = [] \<Longrightarrow> py_remove (CHR ''_'') name = []"
    by (simp add: py_remove_def)
  show ?thesis
    unfolding py_isalnum_def 1 using 2 by blast
qed


lemma import_data_empty:
  "df_empty df \<Longrightarrow>
   import_data conn db df name mode = Inl (ValueError ''Cannot import empty DataFrame'')"
  by (simp add: import_data_def)

lemma import_data_invalid:
  assumes "\<not> df_empty df"
    and "py_remove (CHR ''_'') name = [] \<or> (\<exists>c \<in> set name. c \<noteq> CHR ''_'' \<and> \<not> isalnum_char c)"
  shows "import_data conn db df name mode = Inl (ValueError (''Invalid table name: '' @ name))"
proof -
  have "name = [] \<or> \<not> py_isalnum (py_remove (CHR ''_'') name)"
    unfolding name_check by (rule assms(2))
  then show ?thesis using assms(1) by (simp add: import_data_def)
qed

lemma import_data_valid:
  assumes "\<not> df_empty df"
    and "\<not> (py_remove (CHR ''_'') name = [] \<or> (\<exists>c \<in> set name. c \<noteq> CHR ''_'' \<and> \<not> isalnum_char c))"
  shows "import_data conn db df name mode =
          (case import_statements conn db df name mode of
             Inl msg \<Rightarrow> Inl (RuntimeError (''Failed to import data into table '' @ [CHR 0x27]
                                  @ name @ [CHR 0x27] @ '': '' @ msg))
           | Inr db' \<Rightarrow> Inr db')"
proof -
  have "\<not> (name = [] \<or> \<not> py_isalnum (py_remove (CHR ''_'') name))"
    unfolding name_check by (rule assms(2))
  then show ?thesis using assms(1) by (simp add: import_data_def)
qed

lemma pattern_name_valid:
  assumes "matches_identifier_pattern name" and "\<exists>c \<in> set name. c \<noteq> CHR ''_''"
  shows "\<not> (py_remove (CHR ''_'') name = [] \<or> (\<exists>c \<in> set name. c \<noteq> CHR ''_'' \<and> \<not> isalnum_char c))"
proof -
  have all: "\<forall>c \<in> set name. identifier_char c"
    using assms(1) by (simp add: matches_identifier_pattern_def list_all_iff)
  have "py_remove (CHR ''_'') name \<noteq> []"
    using assms(2) by (simp add: py_remove_def filter_empty_conv)
  moreover have "\<forall>c \<in> set name. c \<noteq> CHR ''_'' \<longrightarrow> isalnum_char c"
    using all identifier_char_isalnum by blast
  ultimately show ?thesis by blast
qed

lemma sample_df_not_empty: "\<not> df_empty sample_df"
  by (simp add: df_empty_def sample_df_def)

lemma accepting_statements:
  "import_statements accepting_connection () df name mode = Inr ()"
  by (simp add: import_statements_def accepting_connection_def and_then_def)

text \<open>
  C3, as stated, fails in both directions of the identifier check. The name \<open>_\<close> matches
  \<open>[A-Za-z0-9_]+\<close>, but with its underscores removed it is empty, \<open>isalnum()\<close> is
  false on the empty text, and the import is refused. The name \<open>caf\<close> followed by
  U+00E9 holds a character outside \<open>[A-Za-z0-9_]\<close>, but \<open>isalnum()\<close> holds of every
  letter, not only of the ASCII ones, and the import goes through.
\<close>

theorem underscore_name_counterexample:
  \<open>matches_identifier_pattern ''_'' \<and>
   import_data accepting_connection () sample_df ''_'' ''replace''
     = Inl (ValueError ''Invalid table name: _'') \<and>
   \<not> matches_identifier_pattern (''caf'' @ [CHR 0xE9]) \<and>
   import_data accepting_connection () sample_df (''caf'' @ [CHR 0xE9]) ''replace'' = Inr ()\<close>
proof -
  have 1: "matches_identifier_pattern ''_''"
    by (simp add: matches_identifier_pattern_def identifier_char_def)
  have 2: "import_data accepting_connection () sample_df ''_'' ''replace''
            = Inl (ValueError ''Invalid table name: _'')"
    using sample_df_not_empty
    by (simp add: import_data_def py_remove_def py_isalnum_def)
  have 3: "\<not> matches_identifier_pattern (''caf'' @ [CHR 0xE9])"
    by (simp add: matches_identifier_pattern_def identifier_char_def)
  have 4: "py_isalnum (py_remove (CHR ''_'') (''caf'' @ [CHR 0xE9]))"
    by (simp add: py_remove_def py_isalnum_def isalnum_char_def)
  have 5: "import_data accepting_connection () sample_df (''caf'' @ [CHR 0xE9]) ''replace'' = Inr ()"
    using sample_df_not_empty 4
    by (simp add: import_data_def accepting_statements)
  from 1 2 3 5 show ?thesis by blast
qed

text \<open>
  C3, amended. \<open>import_data\<close> raises \<open>ValueError("Cannot import empty DataFrame")\<close>
  whenever the frame is empty, whatever the name. On a frame that is not empty it raises
  \<open>ValueError("Invalid table name: ...")\<close> exactly when the name with its underscores
  removed is empty, or the name holds a character other than \<open>_\<close> of which
  \<open>isalnum()\<close> is false. So it does for every name that holds an ASCII character outside
  \<open>[A-Za-z0-9_]\<close>, such as \<open>-\<close> or \<open>!\<close>; and for a name that matches
  \<open>[A-Za-z0-9_]+\<close> and holds at least one character other than \<open>_\<close> the check
  passes: the outcome is that of the statements sent to the connection.
\<close>

theorem import_data_rejections:
  \<open>(df_empty df \<longrightarrow>
      import_data conn db df name mode = Inl (ValueError ''Cannot import empty DataFrame'')) \<and>
   (\<not> df_empty df \<longrightarrow>
      (import_data conn db df name mode = Inl (ValueError (''Invalid table name: '' @ name)))
      = (py_remove (CHR ''_'') name = []
         \<or> (\<exists>c \<in> set name. c \<noteq> CHR ''_'' \<and> \<not> isalnum_char c))) \<and>
   (\<not> df_empty df \<and> (\<exists>c \<in> set name. (of_char c :: nat) < 128 \<and> \<not> identifier_char c) \<longrightarrow>
      import_data conn db df name mode = Inl (ValueError (''Invalid table name: '' @ name))) \<and>
   (\<not> df_empty df \<and> matches_identifier_pattern name \<and> (\<exists>c \<in> set name. c \<noteq> CHR ''_'') \<longrightarrow>
      import_data conn db df name mode =
        (case import_statements conn db df name mode of
           Inl msg \<Rightarrow> Inl (RuntimeError (''Failed to import data into table '' @ [CHR 0x27]
                                @ name @ [CHR 0x27] @ '': '' @ msg))
         | Inr db' \<Rightarrow> Inr db'))\<close>
proof (intro conjI impI)
  assume "df_empty df"
  then show "import_data conn db df name mode = Inl (ValueError ''Cannot import empty DataFrame'')"
    by (rule import_data_empty)
next
  assume ne: "\<not> df_empty df"
  show "(import_data conn db df name mode = Inl (ValueError (''Invalid table name: '' @ name)))
        = (py_remove (CHR ''_'') name = []
           \<or> (\<exists>c \<in> set name. c \<noteq> CHR ''_'' \<and> \<not> isalnum_char c))"
  proof (cases "py_remove (CHR ''_'') name = []
           \<or> (\<exists>c \<in> set name. c \<noteq> CHR ''_'' \<and> \<not> isalnum_char c)")
    case True
    have "import_data conn db df name mode = Inl (ValueError (''Invalid table name: '' @ name))"
      by (rule import_data_invalid [OF ne True])
    with True show ?thesis by (simp only: simp_thms)
  next
    case False
    have "import_data conn db df name mode \<noteq> Inl (ValueError (''Invalid table name: '' @ name))"
      unfolding import_data_valid [OF ne False]
      by (cases "import_statements conn db df name mode") simp_all
    with False show ?thesis by (simp only: simp_thms)
  qed
next
  assume a: "\<not> df_empty df \<and> (\<exists>c \<in> set name. (of_char c :: nat) < 128 \<and> \<not> identifier_char c)"
  then obtain c where c: "c \<in> set name" "(of_char c :: nat) < 128" "\<not> identifier_char c"
    by blast
  have "c \<noteq> CHR ''_'' \<and> \<not> isalnum_char c"
    using c(2,3) by (rule ascii_outside_pattern)
  then have "\<exists>c \<in> set name. c \<noteq> CHR ''_'' \<and> \<not> isalnum_char c" using c(1) by (rule bexI)
  then have bad: "py_remove (CHR ''_'') name = []
           \<or> (\<exists>c \<in> set name. c \<noteq> CHR ''_'' \<and> \<not> isalnum_char c)" by (rule disjI2)
  from a have ne: "\<not> df_empty df" by (rule conjunct1)
  show "import_data conn db df name mode = Inl (ValueError (''Invalid table name: '' @ name))"
    by (rule import_data_invalid [OF ne bad])
next
  assume a: "\<not> df_empty df \<and> matches_identifier_pattern name \<and> (\<exists>c \<in> set name. c \<noteq> CHR ''_'')"
  from a have ne: "\<not> df_empty df" by (rule conjunct1)
  from a have m: "matches_identifier_pattern name" by (rule conjunct1 [OF conjunct2])
  from a have s: "\<exists>c \<in> set name. c \<noteq> CHR ''_''" by (rule conjunct2 [OF conjunct2])
  have v: "\<not> (py_remove (CHR ''_'') name = []
           \<or> (\<exists>c \<in> set name. c \<noteq> CHR ''_'' \<and> \<not> isalnum_char c))"
    by (rule pattern_name_valid [OF m s])
  show "import_data conn db df name mode =
        (case import_statements conn db df name mode of
           Inl msg \<Rightarrow> Inl (RuntimeError (''Failed to import data into table '' @ [CHR 0x27]
                                @ name @ [CHR 0x27] @ '': '' @ msg))
         | Inr db' \<Rightarrow> Inr db')"
    by (rule import_data_valid [OF ne v])
qed

theorem import_data_rejections_witness:
  \<open>import_data accepting_connection ()
       \<lparr>columns = [''id''], rows = ([] :: scalar list list)\<rparr> ''test_table'' ''replace''
     = Inl (ValueError ''Cannot import empty DataFrame'') \<and>
   import_data accepting_connection () sample_df ''invalid-table-name!'' ''replace''
     = Inl (ValueError ''Invalid table name: invalid-table-name!'') \<and>
   import_data accepting_connection () sample_df ''test_table'' ''replace'' = Inr ()\<close>
proof -
  have e: "df_empty \<lparr>columns = [''id''], rows = ([] :: scalar list list)\<rparr>"
    by (simp add: df_empty_def)
  have bad: "\<exists>c \<in> set ''invalid-table-name!''. (of_char c :: nat) < 128 \<and> \<not> identifier_char c"
    by (simp add: identifier_char_def)
  have good: "matches_identifier_pattern ''test_table''"
    by (simp add: matches_identifier_pattern_def identifier_char_def)
  have some: "\<exists>c \<in> set ''test_table''. c \<noteq> CHR ''_''" by simp
  have w1: "import_data accepting_connection ()
       \<lparr>columns = [''id''], rows = ([] :: scalar list list)\<rparr> ''test_table'' ''replace''
     = Inl (ValueError ''Cannot import empty DataFrame'')"
    by (rule mp [OF conjunct1 [OF import_data_rejections] e])
  have "import_data accepting_connection () sample_df ''invalid-table-name!'' ''replace''
     = Inl (ValueError (''Invalid table name: '' @ ''invalid-table-name!''))"
    by (rule mp [OF conjunct1 [OF conjunct2 [OF conjunct2 [OF import_data_rejections]]]
                 conjI [OF sample_df_not_empty bad]])
  then have w2: "import_data accepting_connection () sample_df ''invalid-table-name!'' ''replace''
     = Inl (ValueError ''Invalid table name: invalid-table-name!'')"
    by simp
  have "import_data accepting_connection () sample_df ''test_table'' ''replace'' =
        (case import_statements accepting_connection () sample_df ''test_table'' ''replace'' of
           Inl msg \<Rightarrow> Inl (RuntimeError (''Failed to import data into table '' @ [CHR 0x27]
                                @ ''test_table'' @ [CHR 0x27] @ '': '' @ msg))
         | Inr db' \<Rightarrow> Inr db')"
    by (rule mp [OF conjunct2 [OF conjunct2 [OF conjunct2 [OF import_data_rejections]]]
                 conjI [OF sample_df_not_empty conjI [OF good some]]])
  then have w3: "import_data accepting_connection () sample_df ''test_table'' ''replace'' = Inr ()"
    by (simp only: accepting_statements sum.case)
  from w1 w2 w3 show ?thesis by (intro conjI)
qed


subsection \<open>The four KPI methods when the first table is absent\<close>

lemma is_prefix_extend: "is_prefix n h \<Longrightarrow> is_prefix n (h @ post)"
  by (induction n h rule: is_prefix.induct) simp_all

lemma py_in_Nil: "py_in [] h"
  by (cases h) simp_all

lemma py_in_append_right: "py_in n h \<Longrightarrow> py_in n (h @ post)"
proof (induction h)
  case Nil
  then show ?case by (simp add: py_in_Nil)
next
  case (Cons a h)
  from Cons.prems have "is_prefix n (a # h) \<or> py_in n h" by simp
  then show ?case
  proof
    assume "is_prefix n (a # h)"
    then have "is_prefix n ((a # h) @ post)" by (rule is_prefix_extend)
    then show ?thesis by simp
  next
    assume "py_in n h"
    then have "py_in n (h @ post)" by (rule Cons.IH)
    then show ?thesis by simp
  qed
qed

lemma apply_filters_extends:
  "\<exists>suffix. apply_filters_to_query fs base known = base @ suffix"
proof (cases "fs = [] \<or> List.map_filter (kpi_filter_entry known) fs = []")
  case True
  then have "apply_filters_to_query fs base known = base @ []"
    by (auto simp: apply_filters_to_query_def Let_def)
  then show ?thesis by (rule exI)
next
  case False
  show ?thesis
  proof (cases "has_where base")
    case True
    with False have "apply_filters_to_query fs base known
        = base @ ('' AND '' @ py_join '' AND '' (List.map_filter (kpi_filter_entry known) fs))"
      by (simp add: apply_filters_to_query_def Let_def)
    then show ?thesis by (rule exI)
  next
    case nw: False
    with False have "apply_filters_to_query fs base known
        = base @ ('' WHERE '' @ py_join '' AND '' (List.map_filter (kpi_filter_entry known) fs))"
      by (simp add: apply_filters_to_query_def Let_def)
    then show ?thesis by (rule exI)
  qed
qed

lemma py_strip_nonempty:
  assumes "\<exists>c \<in> set s. \<not> isspace_char c"
  shows "py_strip s \<noteq> []"
proof -
  have ne: "dropWhile isspace_char s \<noteq> []"
    using assms by (simp add: dropWhile_eq_Nil_conv)
  then have "\<not> isspace_char (hd (dropWhile isspace_char s))"
    by (rule hd_dropWhile)
  moreover have "hd (dropWhile isspace_char s) \<in> set (rev (dropWhile isspace_char s))"
    using ne by simp
  ultimately have "dropWhile isspace_char (rev (dropWhile isspace_char s)) \<noteq> []"
    unfolding dropWhile_eq_Nil_conv by blast
  then show ?thesis by (simp add: py_strip_def)
qed

lemma primary_failure_is_final:
  assumes "py_in ''student_habits_performance'' base" and "\<exists>c \<in> set base. \<not> isspace_char c"
  shows "kpi_except n (and_then (kpi_attempt only_factors_loaded fs base cols tail) f)
         = Inl (RuntimeError (''Failed to calculate KPI '' @ n
                  @ '': Query execution failed: Catalog Error: Table with name student_habits_performance does not exist!''))"
proof -
  obtain suffix where s: "apply_filters_to_query fs base (Some cols) = base @ suffix"
    using apply_filters_extends by blast
  define q where "q = apply_filters_to_query fs base (Some cols) @ tail"
  have q: "q = base @ (suffix @ tail)" by (simp add: q_def s)
  have 1: "py_in ''student_habits_performance'' q"
    unfolding q using assms(1) by (rule py_in_append_right)
  have "\<exists>c \<in> set q. \<not> isspace_char c" using assms(2) unfolding q by auto
  then have 2: "py_strip q \<noteq> []" by (rule py_strip_nonempty)
  then have 3: "q \<noteq> []" by (auto simp: py_strip_def)
  have "execute_query only_factors_loaded q
        = Inl (RuntimeError (''Query execution failed: '' @
            ''Catalog Error: Table with name student_habits_performance does not exist!''))"
    using 1 2 3 by (simp add: execute_query_def only_factors_loaded_def)
  then show ?thesis
    by (simp add: kpi_attempt_def q_def [symmetric] and_then_def kpi_except_def)
qed

lemma habits_queries_name_the_table:
  "py_in ''student_habits_performance'' kpi_1_habits_query"
  "py_in ''student_habits_performance'' kpi_2_habits_query"
  "py_in ''student_habits_performance'' kpi_3_habits_query"
  "py_in ''student_habits_performance'' kpi_4_habits_query"
  by (simp_all add: kpi_1_habits_query_def kpi_2_habits_query_def kpi_3_habits_query_def
        kpi_4_habits_query_def)

lemma not_space_S: "\<not> isspace_char (CHR ''S'')"
  by (simp add: isspace_char_def)

lemma habits_queries_not_blank:
  "\<exists>c \<in> set kpi_1_habits_query. \<not> isspace_char c"
  "\<exists>c \<in> set kpi_2_habits_query. \<not> isspace_char c"
  "\<exists>c \<in> set kpi_3_habits_query. \<not> isspace_char c"
  "\<exists>c \<in> set kpi_4_habits_query. \<not> isspace_char c"
proof -
  have "CHR ''S'' \<in> set kpi_1_habits_query" by (simp add: kpi_1_habits_query_def)
  then show "\<exists>c \<in> set kpi_1_habits_query. \<not> isspace_char c" using not_space_S by (rule rev_bexI)
  have "CHR ''S'' \<in> set kpi_2_habits_query" by (simp add: kpi_2_habits_query_def)
  then show "\<exists>c \<in> set kpi_2_habits_query. \<not> isspace_char c" using not_space_S by (rule rev_bexI)
  have "CHR ''S'' \<in> set kpi_3_habits_query" by (simp add: kpi_3_habits_query_def)
  then show "\<exists>c \<in> set kpi_3_habits_query. \<not> isspace_char c" using not_space_S by (rule rev_bexI)
  have "CHR ''S'' \<in> set kpi_4_habits_query" by (simp add: kpi_4_habits_query_def)
  then show "\<exists>c \<in> set kpi_4_habits_query. \<not> isspace_char c" using not_space_S by (rule rev_bexI)
qed

lemma factors_query_runs:
  \<open>kpi_attempt only_factors_loaded [] kpi_1_factors_query
      [''Gender'', ''Parental_Education_Level'', ''Exam_Score'']
      '' GROUP BY "Gender" ORDER BY average_score DESC''
    = Inr \<lparr>columns = [''Gender'', ''Exam_Score''],
           rows = [[SStr ''Male'', SInt 67], [SStr ''Female'', SInt 70]]\<rparr>\<close>
proof -
  define q where \<open>q = kpi_1_factors_query @ '' GROUP BY "Gender" ORDER BY average_score DESC''\<close>
  have 1: "\<not> py_in ''student_habits_performance'' q"
    by (simp add: q_def kpi_1_factors_query_def)
  have "CHR ''S'' \<in> set q" by (simp add: q_def kpi_1_factors_query_def)
  then have "\<exists>c \<in> set q. \<not> isspace_char c" using not_space_S by (rule rev_bexI)
  then have 2: "py_strip q \<noteq> []" by (rule py_strip_nonempty)
  then have 3: "q \<noteq> []" by (auto simp: py_strip_def)
  have "execute_query only_factors_loaded q
        = Inr \<lparr>columns = [''Gender'', ''Exam_Score''],
           rows = [[SStr ''Male'', SInt 67], [SStr ''Female'', SInt 70]]\<rparr>"
    using 1 2 3 by (simp add: execute_query_def only_factors_loaded_def)
  then show ?thesis
    by (simp add: kpi_attempt_def apply_filters_to_query_def q_def)
qed

lemma empty_result_falls_back:
  assumes "kpi_attempt run fs q1 cols1 t1 = Inr r" and "df_empty r"
  shows "kpi_except n (and_then (kpi_attempt run fs q1 cols1 t1)
           (\<lambda>result. if df_empty result then kpi_attempt run fs q2 cols2 t2 else Inr result))
         = kpi_except n (kpi_attempt run fs q2 cols2 t2)"
  using assms by (simp add: and_then_def)

text \<open>
  C1. Each KPI method sends its second query, on \<open>student_performance_factors\<close>, only when
  the first, on \<open>student_habits_performance\<close>, has returned no rows
  (\<open>empty_result_falls_back\<close>). When that table is absent the first query raises instead:
  \<open>execute_query\<close> re-raises it as \<open>RuntimeError("Query execution failed: ...")\<close>, the
  \<open>except\<close> of the method as \<open>RuntimeError("Failed to calculate KPI n: ...")\<close>, and
  the second query is never sent, though the store would answer it with rows. The comments
  of the four methods (\<open>Try to use student_habits_performance table\<close>,
  \<open>Fallback to student_performance_factors\<close>) and the loader of \<open>app.py\<close>, which
  imports either file alone, say that a store holding only the second table is to be
  served from it. So, on such a store and for every filter dictionary, all four methods
  fail, and the second query of the first method, sent alone, returns rows.
\<close>

theorem absent_primary_table_no_fallback:
  \<open>calculate_kpi_1_scores_by_group only_factors_loaded filters
     = Inl (RuntimeError ''Failed to calculate KPI 1: Query execution failed: Catalog Error: Table with name student_habits_performance does not exist!'') \<and>
   calculate_kpi_2_study_correlation only_factors_loaded filters
     = Inl (RuntimeError ''Failed to calculate KPI 2: Query execution failed: Catalog Error: Table with name student_habits_performance does not exist!'') \<and>
   calculate_kpi_3_attendance_impact only_factors_loaded filters
     = Inl (RuntimeError ''Failed to calculate KPI 3: Query execution failed: Catalog Error: Table with name student_habits_performance does not exist!'') \<and>
   calculate_kpi_4_sleep_performance only_factors_loaded filters
     = Inl (RuntimeError ''Failed to calculate KPI 4: Query execution failed: Catalog Error: Table with name student_habits_performance does not exist!'') \<and>
   kpi_attempt only_factors_loaded [] kpi_1_factors_query
      [''Gender'', ''Parental_Education_Level'', ''Exam_Score'']
      '' GROUP BY "Gender" ORDER BY average_score DESC''
    = Inr \<lparr>columns = [''Gender'', ''Exam_Score''],
           rows = [[SStr ''Male'', SInt 67], [SStr ''Female'', SInt 70]]\<rparr>\<close>
proof (intro conjI)
  show \<open>calculate_kpi_1_scores_by_group only_factors_loaded filters
     = Inl (RuntimeError ''Failed to calculate KPI 1: Query execution failed: Catalog Error: Table with name student_habits_performance does not exist!'')\<close>
    unfolding calculate_kpi_1_scores_by_group_def
    by (simp add: primary_failure_is_final [OF habits_queries_name_the_table(1) habits_queries_not_blank(1)])
  show \<open>calculate_kpi_2_study_correlation only_factors_loaded filters
     = Inl (RuntimeError ''Failed to calculate KPI 2: Query execution failed: Catalog Error: Table with name student_habits_performance does not exist!'')\<close>
    unfolding calculate_kpi_2_study_correlation_def
    by (simp add: primary_failure_is_final [OF habits_queries_name_the_table(2) habits_queries_not_blank(2)])
  show \<open>calculate_kpi_3_attendance_impact only_factors_loaded filters
     = Inl (RuntimeError ''Failed to calculate KPI 3: Query execution failed: Catalog Error: Table with name student_habits_performance does not exist!'')\<close>
    unfolding calculate_kpi_3_attendance_impact_def
    by (simp add: primary_failure_is_final [OF habits_queries_name_the_table(3) habits_queries_not_blank(3)])
  show \<open>calculate_kpi_4_sleep_performance only_factors_loaded filters
     = Inl (RuntimeError ''Failed to calculate KPI 4: Query execution failed: Catalog Error: Table with name student_habits_performance does not exist!'')\<close>
    unfolding calculate_kpi_4_sleep_performance_def
    by (simp add: primary_failure_is_final [OF habits_queries_name_the_table(4) habits_queries_not_blank(4)])
  show \<open>kpi_attempt only_factors_loaded [] kpi_1_factors_query
      [''Gender'', ''Parental_Education_Level'', ''Exam_Score'']
      '' GROUP BY "Gender" ORDER BY average_score DESC''
    = Inr \<lparr>columns = [''Gender'', ''Exam_Score''],
           rows = [[SStr ''Male'', SInt 67], [SStr ''Female'', SInt 70]]\<rparr>\<close>
    by (rule factors_query_runs)
qed

end
